theory Spec2Isabelle
  imports Main "HOL-Library.Word"
begin

section \<open>Strings\<close>

text \<open>
  A JavaScript string is a sequence of UTF-16 code units. Literals of the program are
  written \<open>str ''...''\<close>.
\<close>

type_synonym jstr = "16 word list"

definition str :: "string \<Rightarrow> jstr" where
  "str s = map of_char s"

text \<open>
  \<open>String.prototype.trim\<close> strips white space and line terminators from both ends:
  TAB, LF, VT, FF, CR, SP, NBSP, U+1680, U+2000 to U+200A, LS, PS, U+202F, U+205F,
  U+3000 and the byte order mark.
\<close>

definition isWhiteSpace :: "16 word \<Rightarrow> bool" where
  "isWhiteSpace c =
     (c \<in> set [0x09, 0x0A, 0x0B, 0x0C, 0x0D, 0x20, 0xA0, 0x1680,
                0x2028, 0x2029, 0x202F, 0x205F, 0x3000, 0xFEFF]
      \<or> (0x2000 \<le> c \<and> c \<le> 0x200A))"

definition trim :: "jstr \<Rightarrow> jstr" where
  "trim s = rev (dropWhile isWhiteSpace (rev (dropWhile isWhiteSpace s)))"

text \<open>Decimal digits of a natural number (an array index, a length).\<close>

fun decimal :: "nat \<Rightarrow> jstr" where
  "decimal n =
     (if n < 10 then [of_nat (48 + n)]
      else decimal (n div 10) @ [of_nat (48 + n mod 10)])"

declare decimal.simps [simp del]

text \<open>\<open>Array.prototype.join\<close> on an array of strings.\<close>

fun joinLines :: "jstr \<Rightarrow> jstr list \<Rightarrow> jstr" where
  "joinLines sep [] = []"
| "joinLines sep [x] = x"
| "joinLines sep (x # y # ys) = x @ sep @ joinLines sep (y # ys)"

section \<open>Values\<close>

text \<open>
  The values the components handle are parsed JSON and \<open>undefined\<close>. An object is the
  list of its own properties in the order \<open>Object.entries\<close> enumerates them; a property
  name occurs once, and a lookup takes the first entry of a name. A Number is carried by
  its canonical decimal form, the string that \<open>String(n)\<close> gives (\<open>42\<close>, \<open>0.5\<close>,
  \<open>-3\<close>, \<open>NaN\<close>): the program tests numbers for truth, compares them with zero, prints
  them and hands them on, and each of these is a function of that form.
\<close>

datatype jsval =
    JUndefined
  | JNull
  | JBool bool
  | JNum jstr
  | JStr jstr
  | JArr "jsval list"
  | JObj "(jstr \<times> jsval) list"

datatype thrown = TypeError

definition andThen :: "thrown + 'a \<Rightarrow> ('a \<Rightarrow> thrown + 'b) \<Rightarrow> thrown + 'b" where
  "andThen m f = (case m of Inl e \<Rightarrow> Inl e | Inr x \<Rightarrow> f x)"

fun traverse :: "('a \<Rightarrow> thrown + 'b) \<Rightarrow> 'a list \<Rightarrow> thrown + 'b list" where
  "traverse f [] = Inr []"
| "traverse f (x # xs) =
     (case f x of
        Inl e \<Rightarrow> Inl e
      | Inr y \<Rightarrow> (case traverse f xs of Inl e \<Rightarrow> Inl e | Inr ys \<Rightarrow> Inr (y # ys)))"

fun truthy :: "jsval \<Rightarrow> bool" where
  "truthy JUndefined = False"
| "truthy JNull = False"
| "truthy (JBool b) = b"
| "truthy (JNum r) = (r \<noteq> str ''0'' \<and> r \<noteq> str ''NaN'')"
| "truthy (JStr s) = (s \<noteq> [])"
| "truthy (JArr xs) = True"
| "truthy (JObj kvs) = True"

fun nullish :: "jsval \<Rightarrow> bool" where
  "nullish JUndefined = True"
| "nullish JNull = True"
| "nullish v = False"

text \<open>\<open>a || b\<close>\<close>

definition orElse :: "jsval \<Rightarrow> jsval \<Rightarrow> jsval" where
  "orElse a b = (if truthy a then a else b)"

text \<open>
  \<open>v.k\<close> for the property names the program reads (\<open>answer\<close>, \<open>sources\<close>, \<open>graph_data\<close>,
  \<open>nodes\<close>, \<open>relationships\<close>, \<open>id\<close>, \<open>labels\<close>, \<open>properties\<close>, \<open>name\<close>, \<open>type\<close>, \<open>source\<close>,
  \<open>target\<close>, \<open>content\<close>, \<open>length\<close>, \<open>response\<close>, \<open>data\<close>, \<open>detail\<close>). None of them is a
  property of a built-in prototype apart from \<open>length\<close> on arrays and strings, so on an
  object the result is the own property or \<open>undefined\<close>. Reading a property of
  \<open>undefined\<close> or \<open>null\<close> throws.
\<close>

fun get :: "jsval \<Rightarrow> jstr \<Rightarrow> thrown + jsval" where
  "get JUndefined k = Inl TypeError"
| "get JNull k = Inl TypeError"
| "get (JObj kvs) k = Inr (case map_of kvs k of Some v \<Rightarrow> v | None \<Rightarrow> JUndefined)"
| "get (JArr xs) k = Inr (if k = str ''length'' then JNum (decimal (length xs)) else JUndefined)"
| "get (JStr s) k = Inr (if k = str ''length'' then JNum (decimal (length s)) else JUndefined)"
| "get (JBool b) k = Inr JUndefined"
| "get (JNum r) k = Inr JUndefined"

text \<open>
  \<open>String(v)\<close>, as a template literal and a computed property name apply it. An array
  joins its elements with commas, \<open>undefined\<close> and \<open>null\<close> elements giving the empty
  string. An object gives \<open>[object Object]\<close> through \<open>Object.prototype.toString\<close>; an
  own property named \<open>toString\<close> shadows that method with a value that cannot be called,
  and the conversion throws.
\<close>

fun toStr :: "jsval \<Rightarrow> thrown + jstr" and joinElems :: "jsval list \<Rightarrow> thrown + jstr" where
  "toStr JUndefined = Inr (str ''undefined'')"
| "toStr JNull = Inr (str ''null'')"
| "toStr (JBool b) = Inr (if b then str ''true'' else str ''false'')"
| "toStr (JNum r) = Inr r"
| "toStr (JStr s) = Inr s"
| "toStr (JArr xs) = joinElems xs"
| "toStr (JObj kvs) =
     (if str ''toString'' \<in> set (map fst kvs) then Inl TypeError
      else Inr (str ''[object Object]''))"
| "joinElems [] = Inr []"
| "joinElems (x # xs) =
     (case (if nullish x then Inr [] else toStr x) of
        Inl e \<Rightarrow> Inl e
      | Inr s \<Rightarrow>
          (if xs = [] then Inr s
           else (case joinElems xs of Inl e \<Rightarrow> Inl e | Inr t \<Rightarrow> Inr (s @ str '','' @ t))))"

text \<open>
  \<open>Object.entries(v)\<close>: the own enumerable properties. It throws on \<open>undefined\<close> and
  \<open>null\<close>; an array and a string have their indices, a boolean and a number nothing.
\<close>

fun entries :: "jsval \<Rightarrow> thrown + (jstr \<times> jsval) list" where
  "entries JUndefined = Inl TypeError"
| "entries JNull = Inl TypeError"
| "entries (JObj kvs) = Inr kvs"
| "entries (JArr xs) = Inr (zip (map decimal [0..<length xs]) xs)"
| "entries (JStr s) = Inr (zip (map decimal [0..<length s]) (map (\<lambda>c. JStr [c]) s))"
| "entries (JBool b) = Inr []"
| "entries (JNum r) = Inr []"

section \<open>GraphVisualization\<close>

text \<open>
  \<open>node.labels.find(l => l !== 'Node') || 'Node'\<close>, the expression both the node
  transform and the tooltip start with. \<open>find\<close> is a method of arrays only.
\<close>

definition findLabel :: "jsval \<Rightarrow> thrown + jsval" where
  "findLabel labels =
     (case labels of
        JArr ls \<Rightarrow>
          Inr (case List.find (\<lambda>l. l \<noteq> JStr (str ''Node'')) ls of
                 Some l \<Rightarrow> l
               | None \<Rightarrow> JUndefined)
      | _ \<Rightarrow> Inl TypeError)"

definition primaryLabel :: "jsval \<Rightarrow> thrown + jsval" where
  "primaryLabel node =
     andThen (get node (str ''labels'')) (\<lambda>labels.
     andThen (findLabel labels) (\<lambda>l.
     Inr (orElse l (JStr (str ''Node'')))))"

text \<open>\<open>formatNodeTooltip\<close>: the lines pushed, then their join.\<close>

definition tooltipKey :: "jstr \<times> jsval \<Rightarrow> bool" where
  "tooltipKey kv = (fst kv \<noteq> str ''embedding'' \<and> fst kv \<noteq> str ''description'')"

definition tooltipLine :: "jstr \<times> jsval \<Rightarrow> thrown + jstr" where
  "tooltipLine kv = andThen (toStr (snd kv)) (\<lambda>s. Inr (fst kv @ str '': '' @ s))"

definition tooltipLines :: "jsval \<Rightarrow> thrown + jstr list" where
  "tooltipLines node =
     andThen (primaryLabel node) (\<lambda>label.
     andThen (get node (str ''properties'')) (\<lambda>props.
     andThen (toStr label) (\<lambda>l.
     andThen (entries props) (\<lambda>es.
     andThen (traverse tooltipLine (filter tooltipKey es)) (\<lambda>ls.
     Inr ((str ''<b>'' @ l @ str ''</b>'') # ls))))))"

definition formatNodeTooltip :: "jsval \<Rightarrow> thrown + jstr" where
  "formatNodeTooltip node =
     andThen (tooltipLines node) (\<lambda>lines. Inr (joinLines (str ''<br/>'') lines))"

text \<open>
  \<open>colorMap\<close> and \<open>shapeMap\<close> are object literals, read with a computed name. A name
  that is not an own property is looked up in \<open>Object.prototype\<close>, whose properties are
  functions (and, for \<open>__proto__\<close>, the prototype itself): truthy values that are not
  strings.
\<close>

definition colorMap :: "(jstr \<times> jsval) list" where
  "colorMap =
     [(str ''Asset'', JStr (str ''#4CAF50'')),
      (str ''Service'', JStr (str ''#2196F3'')),
      (str ''User'', JStr (str ''#FF9800'')),
      (str ''Location'', JStr (str ''#9C27B0'')),
      (str ''Node'', JStr (str ''#757575''))]"

definition shapeMap :: "(jstr \<times> jsval) list" where
  "shapeMap =
     [(str ''Asset'', JStr (str ''box'')),
      (str ''Service'', JStr (str ''ellipse'')),
      (str ''User'', JStr (str ''circle'')),
      (str ''Location'', JStr (str ''diamond'')),
      (str ''Node'', JStr (str ''dot''))]"

definition objectPrototype :: "jstr list" where
  "objectPrototype =
     map str [''constructor'', ''hasOwnProperty'', ''isPrototypeOf'',
              ''propertyIsEnumerable'', ''toLocaleString'', ''toString'', ''valueOf'',
              ''__defineGetter__'', ''__defineSetter__'', ''__lookupGetter__'',
              ''__lookupSetter__'', ''__proto__'']"

datatype slot = Own jsval | Inherited | Missing

definition member :: "(jstr \<times> jsval) list \<Rightarrow> jstr \<Rightarrow> slot" where
  "member table k =
     (case map_of table k of
        Some v \<Rightarrow> Own v
      | None \<Rightarrow> if k \<in> set objectPrototype then Inherited else Missing)"

text \<open>\<open>table[label] || table['Node']\<close>\<close>

definition memberOr :: "(jstr \<times> jsval) list \<Rightarrow> jstr \<Rightarrow> slot" where
  "memberOr table k =
     (case member table k of
        Own v \<Rightarrow> if truthy v then Own v else member table (str ''Node'')
      | Inherited \<Rightarrow> Inherited
      | Missing \<Rightarrow> member table (str ''Node''))"

text \<open>
  The node handed to vis-network. The record keeps what the payload determines; the
  border shade \<open>darkenColor\<close> derives from the background and the constant font and
  border widths are left out. \<open>darkenColor\<close> calls \<open>color.replace\<close>, which only a string
  has: with an inherited colour the transform throws. Both tables have the same names,
  so the shape is inherited exactly when the colour is.
\<close>

record vis_node =
  node_id :: jsval
  node_label :: jsval
  title :: jstr
  background :: jsval
  shape :: jsval

definition visNode :: "jsval \<Rightarrow> thrown + vis_node" where
  "visNode node =
     andThen (primaryLabel node) (\<lambda>label.
     andThen (toStr label) (\<lambda>key.
     andThen (get node (str ''properties'')) (\<lambda>props.
     andThen (get props (str ''name'')) (\<lambda>nm.
     andThen (get node (str ''id'')) (\<lambda>i.
     andThen (formatNodeTooltip node) (\<lambda>tip.
     (case (memberOr colorMap key, memberOr shapeMap key) of
        (Own color, Own sh) \<Rightarrow>
          Inr \<lparr>node_id = i, node_label = orElse nm (JStr (str ''Unknown'')), title = tip,
               background = color, shape = sh\<rparr>
      | _ \<Rightarrow> Inl TypeError)))))))"

text \<open>The edge handed to vis-network, without its constant colours, font and curve.\<close>

record vis_edge =
  edge_id :: nat
  edge_from :: jsval
  edge_to :: jsval
  edge_label :: jsval
  arrows :: jstr

definition visEdge :: "nat \<times> jsval \<Rightarrow> thrown + vis_edge" where
  "visEdge ir =
     andThen (get (snd ir) (str ''source'')) (\<lambda>s.
     andThen (get (snd ir) (str ''target'')) (\<lambda>t.
     andThen (get (snd ir) (str ''type'')) (\<lambda>ty.
     Inr \<lparr>edge_id = fst ir, edge_from = s, edge_to = t, edge_label = ty,
          arrows = str ''to''\<rparr>)))"

text \<open>\<open>v.map(f)\<close> and \<open>v.map((x, idx) => ...)\<close>: \<open>map\<close> is a method of arrays only.\<close>

definition mapArray :: "(jsval \<Rightarrow> thrown + 'b) \<Rightarrow> jsval \<Rightarrow> thrown + 'b list" where
  "mapArray f v = (case v of JArr xs \<Rightarrow> traverse f xs | _ \<Rightarrow> Inl TypeError)"

definition mapArrayIndexed :: "(nat \<times> jsval \<Rightarrow> thrown + 'b) \<Rightarrow> jsval \<Rightarrow> thrown + 'b list" where
  "mapArrayIndexed f v =
     (case v of JArr xs \<Rightarrow> traverse f (zip [0..<length xs] xs) | _ \<Rightarrow> Inl TypeError)"

text \<open>
  The effect of \<open>GraphVisualization\<close>, run when \<open>graphData\<close> changes. \<open>container\<close> says
  whether \<open>containerRef.current\<close> is set. The result is \<open>None\<close> when the effect returns
  before building anything, and the data of the network otherwise: the clean-up of the
  previous run has destroyed the old network and cleared \<open>networkRef\<close>, so a run that
  gets that far constructs a new \<open>Network\<close> from the data. What vis-network does with
  the data is not part of the model.
\<close>

record network =
  net_nodes :: "vis_node list"
  net_edges :: "vis_edge list"

definition graphEffect :: "bool \<Rightarrow> jsval \<Rightarrow> thrown + network option" where
  "graphEffect container graphData =
     (if \<not> truthy graphData \<or> \<not> container then Inr None
      else
        andThen (get graphData (str ''nodes'')) (\<lambda>nodes.
        andThen (get graphData (str ''relationships'')) (\<lambda>relationships.
        if \<not> truthy nodes then Inr None
        else
          andThen (get nodes (str ''length'')) (\<lambda>len.
          if len = JNum (str ''0'') then Inr None
          else
            andThen (mapArray visNode nodes) (\<lambda>visNodes.
            andThen (mapArrayIndexed visEdge relationships) (\<lambda>visEdges.
            Inr (Some \<lparr>net_nodes = visNodes, net_edges = visEdges\<rparr>)))))))"

section \<open>ChatPanel\<close>

text \<open>
  \<open>x > 0\<close>. A Number is positive when its canonical form is not \<open>0\<close> or \<open>NaN\<close> and has
  no minus sign. Any other value is converted to a Number first; for a string that is
  the engine's numeric parser, the parameter \<open>num\<close>, which gives the canonical form of
  the number a string denotes.
\<close>

definition positive :: "jstr \<Rightarrow> bool" where
  "positive r = (r \<noteq> [] \<and> r \<noteq> str ''0'' \<and> r \<noteq> str ''NaN'' \<and> hd r \<noteq> 0x2D)"

fun greaterThanZero :: "(jstr \<Rightarrow> jstr) \<Rightarrow> jsval \<Rightarrow> thrown + bool" where
  "greaterThanZero num JUndefined = Inr False"
| "greaterThanZero num JNull = Inr False"
| "greaterThanZero num (JBool b) = Inr b"
| "greaterThanZero num (JNum r) = Inr (positive r)"
| "greaterThanZero num (JStr s) = Inr (positive (num s))"
| "greaterThanZero num (JArr xs) = andThen (toStr (JArr xs)) (\<lambda>s. Inr (positive (num s)))"
| "greaterThanZero num (JObj kvs) = andThen (toStr (JObj kvs)) (\<lambda>s. Inr (positive (num s)))"

text \<open>
  The sources block of a message:
  \<open>message.sources && message.sources.length > 0 && (<ul>{message.sources.map(...)}</ul>)\<close>.
  The result is \<open>None\<close> when no block is rendered, and otherwise the list items in
  document order, each the children of its \<open><li>\<close>: \<open>{source.type}: {source.name}\<close>.
\<close>

definition sourceItem :: "jsval \<Rightarrow> thrown + jsval list" where
  "sourceItem source =
     andThen (get source (str ''type'')) (\<lambda>t.
     andThen (get source (str ''name'')) (\<lambda>n.
     Inr [t, JStr (str '': ''), n]))"

definition renderSources :: "(jstr \<Rightarrow> jstr) \<Rightarrow> jsval \<Rightarrow> thrown + jsval list list option" where
  "renderSources num sources =
     (if \<not> truthy sources then Inr None
      else
        andThen (get sources (str ''length'')) (\<lambda>len.
        andThen (greaterThanZero num len) (\<lambda>more.
        if \<not> more then Inr None
        else andThen (mapArray sourceItem sources) (\<lambda>items. Inr (Some items)))))"

text \<open>One message of the list: its content and its sources block.\<close>

definition renderMessage ::
  "(jstr \<Rightarrow> jstr) \<Rightarrow> jsval \<Rightarrow> thrown + jsval \<times> jsval list list option" where
  "renderMessage num message =
     andThen (get message (str ''content'')) (\<lambda>content.
     andThen (get message (str ''sources'')) (\<lambda>sources.
     andThen (renderSources num sources) (\<lambda>block.
     Inr (content, block))))"

text \<open>
  The state of the page: \<open>messages\<close> and \<open>inputValue\<close> of \<open>ChatPanel\<close>, \<open>graphData\<close> and
  \<open>isLoading\<close> of \<open>App\<close>.
\<close>

record app =
  messages :: "jsval list"
  inputValue :: jstr
  graphData :: jsval
  isLoading :: bool

definition userMessage :: "jsval \<Rightarrow> jsval" where
  "userMessage question =
     JObj [(str ''type'', JStr (str ''user'')), (str ''content'', question)]"

definition assistantMessage :: "jsval \<Rightarrow> jsval \<Rightarrow> jsval" where
  "assistantMessage answer sources =
     JObj [(str ''type'', JStr (str ''assistant'')), (str ''content'', answer),
           (str ''sources'', sources)]"

definition errorMessage :: "jsval \<Rightarrow> jsval" where
  "errorMessage content =
     JObj [(str ''type'', JStr (str ''error'')), (str ''content'', content)]"

definition welcomeMessage :: jsval where
  "welcomeMessage =
     JObj [(str ''type'', JStr (str ''system'')),
           (str ''content'',
            JStr (str ''Welcome! Ask me anything about your CMDB infrastructure.''))]"

definition fallbackText :: jsval where
  "fallbackText = JStr (str ''Failed to get answer. Please try again.'')"

text \<open>\<open>handleNewAnswer\<close> of \<open>App\<close>.\<close>

definition handleNewAnswer :: "jsval \<Rightarrow> app \<Rightarrow> thrown + app" where
  "handleNewAnswer answerData st =
     andThen (get answerData (str ''graph_data'')) (\<lambda>g.
     Inr (if truthy g then st\<lparr>graphData := g\<rparr> else st))"

text \<open>
  \<open>handleSubmit\<close> up to its \<open>await\<close>: the new state and the request issued, if any. The
  path is relative to \<open>API_URL\<close>. \<open>trim\<close> is a method of strings only.
\<close>

datatype request = Post jstr jsval

definition handleSubmit :: "jsval \<Rightarrow> app \<Rightarrow> thrown + app \<times> request option" where
  "handleSubmit question st =
     (case question of
        JStr q \<Rightarrow>
          if trim q = [] then Inr (st, None)
          else
            Inr (st\<lparr>messages := messages st @ [userMessage question],
                    inputValue := [], isLoading := True\<rparr>,
                 Some (Post (str ''/ask'') (JObj [(str ''question'', question)])))
      | _ \<Rightarrow> Inl TypeError)"

text \<open>
  \<open>handleSubmit\<close> from its \<open>await\<close> on. The request resolves with a response, of which
  the code reads \<open>data\<close>, or rejects with an error object, given by its properties
  (axios rejects with an \<open>Error\<close>). What the \<open>catch\<close> clause receives is that error object
  or a \<open>TypeError\<close> thrown in the \<open>try\<close> block, which has no \<open>response\<close> property.
\<close>

datatype outcome = Resolved jsval | Rejected "(jstr \<times> jsval) list"

datatype caught = Threw thrown | Failed "(jstr \<times> jsval) list"

text \<open>\<open>v?.k\<close>\<close>

definition optGet :: "jsval \<Rightarrow> jstr \<Rightarrow> jsval" where
  "optGet v k =
     (if nullish v then JUndefined else (case get v k of Inr x \<Rightarrow> x | Inl e \<Rightarrow> JUndefined))"

text \<open>\<open>error.response?.data?.detail || 'Failed to get answer. Please try again.'\<close>\<close>

definition errorContent :: "caught \<Rightarrow> jsval" where
  "errorContent c =
     (case c of
        Threw e \<Rightarrow> fallbackText
      | Failed err \<Rightarrow>
          orElse (optGet (optGet (case map_of err (str ''response'') of
                                    Some r \<Rightarrow> r
                                  | None \<Rightarrow> JUndefined)
                            (str ''data''))
                    (str ''detail''))
            fallbackText)"

definition tryBlock :: "jsval \<Rightarrow> app \<Rightarrow> (caught + unit) \<times> app" where
  "tryBlock answerData st =
     (case get answerData (str ''answer'') of
        Inl e \<Rightarrow> (Inl (Threw e), st)
      | Inr answer \<Rightarrow>
          (case get answerData (str ''sources'') of
             Inl e \<Rightarrow> (Inl (Threw e), st)
           | Inr sources \<Rightarrow>
               (let st1 = st\<lparr>messages := messages st @ [assistantMessage answer sources]\<rparr>
                in case handleNewAnswer answerData st1 of
                     Inl e \<Rightarrow> (Inl (Threw e), st1)
                   | Inr st2 \<Rightarrow> (Inr (), st2))))"

definition handleSubmit_settled :: "outcome \<Rightarrow> app \<Rightarrow> app" where
  "handleSubmit_settled out st =
     (let (r, st1) = (case out of
                        Resolved answerData \<Rightarrow> tryBlock answerData st
                      | Rejected err \<Rightarrow> (Inl (Failed err), st));
          st2 = (case r of
                   Inl c \<Rightarrow> st1\<lparr>messages := messages st1 @ [errorMessage (errorContent c)]\<rparr>
                 | Inr u \<Rightarrow> st1)
      in st2\<lparr>isLoading := False\<rparr>)"

section \<open>The page as a transition system\<close>

text \<open>
  The page with the requests in flight. A question is submitted from the input field
  or an example button; a request in flight settles at any later time, in any order.
  A submission that throws is an unhandled rejection and changes nothing.
\<close>

record page =
  ui :: app
  inflight :: "request list"

datatype event = Typed jstr | Submit jsval | Settle nat outcome

definition mounted :: page where
  "mounted =
     \<lparr>ui = \<lparr>messages = [welcomeMessage], inputValue = [], graphData = JNull,
            isLoading = False\<rparr>,
      inflight = []\<rparr>"

fun step :: "page \<Rightarrow> event \<Rightarrow> page" where
  "step p (Typed v) = p\<lparr>ui := (ui p)\<lparr>inputValue := v\<rparr>\<rparr>"
| "step p (Submit question) =
     (case handleSubmit question (ui p) of
        Inl e \<Rightarrow> p
      | Inr (st, None) \<Rightarrow> p\<lparr>ui := st\<rparr>
      | Inr (st, Some req) \<Rightarrow> \<lparr>ui = st, inflight = inflight p @ [req]\<rparr>)"
| "step p (Settle i out) =
     (if i < length (inflight p)
      then \<lparr>ui = handleSubmit_settled out (ui p),
            inflight = take i (inflight p) @ drop (Suc i) (inflight p)\<rparr>
      else p)"

definition run :: "page \<Rightarrow> event list \<Rightarrow> page" where
  "run p evs = foldl step p evs"

section \<open>Notions of the specification\<close>

text \<open>The loading flag is down whenever no request is in flight.\<close>

definition settledWhenIdle :: "page \<Rightarrow> bool" where
  "settledWhenIdle p = (inflight p = [] \<longrightarrow> \<not> isLoading (ui p))"


text \<open>The text a value is printed as, where printing it does not throw.\<close>

definition textOf :: "jsval \<Rightarrow> jstr" where
  "textOf v = (case toStr v of Inr s \<Rightarrow> s | Inl e \<Rightarrow> [])"

text \<open>
  The field names the page reads of an answer: a payload cut down to \<open>answer\<close>,
  \<open>sources\<close> with \<open>name\<close> and \<open>type\<close> of each entry, and \<open>graph_data\<close> with \<open>nodes\<close>
  (\<open>id\<close>, \<open>labels\<close>, \<open>properties\<close> of each) and \<open>relationships\<close> (\<open>source\<close>, \<open>target\<close>,
  \<open>type\<close> of each). The envelope has two names more, \<open>question\<close> and the \<open>properties\<close>
  of a source. \<open>keep\<close> drops the other properties of an object, \<open>each\<close> goes through the
  elements of an array, \<open>under\<close> goes into one property; a value of another kind is
  left as it is.
\<close>

definition keep :: "jstr list \<Rightarrow> jsval \<Rightarrow> jsval" where
  "keep ks v = (case v of JObj kvs \<Rightarrow> JObj (filter (\<lambda>kv. fst kv \<in> set ks) kvs) | _ \<Rightarrow> v)"

definition each :: "(jsval \<Rightarrow> jsval) \<Rightarrow> jsval \<Rightarrow> jsval" where
  "each f v = (case v of JArr xs \<Rightarrow> JArr (map f xs) | _ \<Rightarrow> v)"

definition under :: "jstr \<Rightarrow> (jsval \<Rightarrow> jsval) \<Rightarrow> jsval \<Rightarrow> jsval" where
  "under k f v =
     (case v of
        JObj kvs \<Rightarrow> JObj (map (\<lambda>kv. if fst kv = k then (k, f (snd kv)) else kv) kvs)
      | _ \<Rightarrow> v)"

definition readSources :: "jsval \<Rightarrow> jsval" where
  "readSources = each (keep [str ''name'', str ''type''])"

definition readGraph :: "jsval \<Rightarrow> jsval" where
  "readGraph g =
     under (str ''nodes'') (each (keep [str ''id'', str ''labels'', str ''properties'']))
       (under (str ''relationships'')
          (each (keep [str ''source'', str ''target'', str ''type'']))
          (keep [str ''nodes'', str ''relationships''] g))"

definition readFields :: "jsval \<Rightarrow> jsval" where
  "readFields p =
     under (str ''sources'') readSources
       (under (str ''graph_data'') readGraph
          (keep [str ''answer'', str ''sources'', str ''graph_data''] p))"

text \<open>
  What the page shows in a state: the messages with their sources blocks, the network
  drawn for the stored graph, the input field and the loading overlay.
\<close>

definition shown ::
  "bool \<Rightarrow> (jstr \<Rightarrow> jstr) \<Rightarrow> app \<Rightarrow>
     (thrown + jsval \<times> jsval list list option) list \<times> (thrown + network option) \<times> jstr \<times> bool"
  where
  "shown container num st =
     (map (renderMessage num) (messages st), graphEffect container (graphData st),
      inputValue st, isLoading st)"

section \<open>Submitting a question\<close>

lemma trim_blank: "trim q = [] \<longleftrightarrow> list_all isWhiteSpace q"
proof -
  have "trim q = [] \<longleftrightarrow> (\<forall>x\<in>set (dropWhile isWhiteSpace q). isWhiteSpace x)"
    by (simp add: trim_def)
  also have "\<dots> \<longleftrightarrow> dropWhile isWhiteSpace q = []"
    using hd_dropWhile [of isWhiteSpace q]
    by (cases "dropWhile isWhiteSpace q") (auto dest: set_dropWhileD)
  also have "\<dots> \<longleftrightarrow> list_all isWhiteSpace q"
    by (simp add: list_all_iff)
  finally show ?thesis .
qed

text \<open>
  C3. A question that is empty after trimming, that is empty or made of white space
  only, is dropped by \<open>handleSubmit\<close> before anything happens: no request is issued, and
  the state, the message list included, is what it was. On the page, the submission is
  no step at all.
\<close>

theorem blank_question_ignored:
  "trim q = [] \<Longrightarrow>
     handleSubmit (JStr q) st = Inr (st, None) \<and> step p (Submit (JStr q)) = p"
  by (simp add: handleSubmit_def)

theorem blank_question_ignored_witness:
  "trim (str '' '') = [] \<and> trim [0x09, 0xA0, 0x3000] = []
   \<and> handleSubmit (JStr (str '' '')) (ui mounted) = Inr (ui mounted, None)
   \<and> step mounted (Submit (JStr [])) = mounted"
proof -
  have a: "trim (str '' '') = []" by (simp add: trim_def str_def isWhiteSpace_def)
  have b: "trim [0x09, 0xA0, 0x3000] = []" by (simp add: trim_def isWhiteSpace_def)
  have c: "trim [] = []" by (simp add: trim_def)
  show ?thesis
    using a b blank_question_ignored [OF a, of "ui mounted" mounted]
      blank_question_ignored [OF c, of "ui mounted" mounted] by simp
qed

section \<open>The graph kept by the page\<close>

text \<open>
  C9. \<open>handleNewAnswer\<close> replaces the stored graph exactly when the payload's
  \<open>graph_data\<close> is truthy. When the field is absent (\<open>undefined\<close>), \<open>null\<close> or falsy in
  another way, the state is returned as it was, so the graph shown before stays. The
  same holds through the whole of \<open>handleSubmit\<close>: nothing else in it writes the graph.
\<close>

theorem graph_kept_unless_truthy:
  "get answerData (str ''graph_data'') = Inr g \<Longrightarrow>
     handleNewAnswer answerData st = Inr (if truthy g then st\<lparr>graphData := g\<rparr> else st)
     \<and> graphData (handleSubmit_settled (Resolved answerData) st)
         = (if truthy g then g else graphData st)"
  by (cases answerData)
     (auto simp: handleNewAnswer_def handleSubmit_settled_def tryBlock_def andThen_def Let_def
           split: sum.splits prod.splits)

theorem graph_kept_unless_truthy_witness:
  "get (JObj [(str ''answer'', JStr (str ''none''))]) (str ''graph_data'') = Inr JUndefined
   \<and> handleNewAnswer (JObj [(str ''answer'', JStr (str ''none''))]) (ui mounted)
       = Inr (ui mounted)
   \<and> get (JObj [(str ''graph_data'', JNull)]) (str ''graph_data'') = Inr JNull
   \<and> handleNewAnswer (JObj [(str ''graph_data'', JNull)]) (ui mounted) = Inr (ui mounted)
   \<and> get (JObj [(str ''graph_data'', JObj [])]) (str ''graph_data'') = Inr (JObj [])
   \<and> handleNewAnswer (JObj [(str ''graph_data'', JObj [])]) (ui mounted)
       = Inr ((ui mounted)\<lparr>graphData := JObj []\<rparr>)"
proof -
  have a: "get (JObj [(str ''answer'', JStr (str ''none''))]) (str ''graph_data'')
             = Inr JUndefined"
    by (simp add: str_def)
  have b: "get (JObj [(str ''graph_data'', JNull)]) (str ''graph_data'') = Inr JNull"
    by simp
  have c: "get (JObj [(str ''graph_data'', JObj [])]) (str ''graph_data'') = Inr (JObj [])"
    by simp
  show ?thesis
    using a b c graph_kept_unless_truthy [OF a, of "ui mounted"]
      graph_kept_unless_truthy [OF b, of "ui mounted"]
      graph_kept_unless_truthy [OF c, of "ui mounted"]
    by simp
qed

section \<open>The loading flag\<close>

lemma settled_not_loading: "\<not> isLoading (handleSubmit_settled out st)"
  by (simp add: handleSubmit_settled_def Let_def split: prod.splits)

lemma handleSubmit_cases:
  "handleSubmit question st = Inr (st', r) \<Longrightarrow>
     (r = None \<and> st' = st) \<or> (\<exists>req. r = Some req \<and> isLoading st')"
  by (auto simp: handleSubmit_def split: jsval.splits if_splits)

lemma step_idle: "settledWhenIdle p \<Longrightarrow> settledWhenIdle (step p e)"
proof (cases e)
  case (Typed v)
  assume "settledWhenIdle p"
  then show ?thesis using Typed by (simp add: settledWhenIdle_def)
next
  case (Submit question)
  assume inv: "settledWhenIdle p"
  show ?thesis
  proof (cases "handleSubmit question (ui p)")
    case (Inl e)
    then show ?thesis using inv Submit by simp
  next
    case (Inr res)
    obtain st' r where res: "res = (st', r)" by (cases res)
    from handleSubmit_cases [OF Inr [unfolded res]] show ?thesis
      using inv Submit Inr res by (auto simp: settledWhenIdle_def)
  qed
next
  case (Settle i out)
  assume "settledWhenIdle p"
  then show ?thesis using Settle by (simp add: settledWhenIdle_def settled_not_loading)
qed

lemma run_idle: "settledWhenIdle p \<Longrightarrow> settledWhenIdle (run p evs)"
  unfolding run_def by (induction evs arbitrary: p) (simp_all add: step_idle)

lemma mounted_idle: "settledWhenIdle mounted"
  by (simp add: settledWhenIdle_def mounted_def)

text \<open>
  C10. Submitting a question that is not blank issues the request from a state whose
  loading flag is up. When the request settles, resolved or rejected, and whatever the
  \<open>try\<close> block does with the response, the flag is down again. Hence, after any sequence
  of typing, submissions and settlements from the mounted page, in any interleaving,
  the flag is down whenever no request is in flight.
\<close>

theorem loading_flag:
  "(trim q \<noteq> [] \<longrightarrow>
      (\<exists>st' req. handleSubmit (JStr q) st = Inr (st', Some req) \<and> isLoading st'))
   \<and> \<not> isLoading (handleSubmit_settled out st)
   \<and> (inflight (run mounted evs) = [] \<longrightarrow> \<not> isLoading (ui (run mounted evs)))"
  using run_idle [OF mounted_idle, of evs]
  by (simp add: handleSubmit_def settled_not_loading settledWhenIdle_def)

theorem loading_flag_witness:
  "trim (str ''hi'') \<noteq> []
   \<and> (\<exists>st' req. handleSubmit (JStr (str ''hi'')) (ui mounted) = Inr (st', Some req)
        \<and> isLoading st')
   \<and> inflight (run mounted [Submit (JStr (str ''hi'')), Settle 0 (Rejected [])]) = []
   \<and> \<not> isLoading (ui (run mounted [Submit (JStr (str ''hi'')), Settle 0 (Rejected [])]))"
proof -
  have a: "trim (str ''hi'') \<noteq> []"
    by (simp add: trim_def str_def isWhiteSpace_def)
  have b: "inflight (run mounted [Submit (JStr (str ''hi'')), Settle 0 (Rejected [])]) = []"
    using a by (simp add: run_def mounted_def handleSubmit_def)
  show ?thesis
    using a b
      loading_flag [of "str ''hi''" "ui mounted" "Rejected []"
        "[Submit (JStr (str ''hi'')), Settle 0 (Rejected [])]"]
    by blast
qed

section \<open>Failed requests\<close>

lemma get_nullish: "get v k = Inl e \<longleftrightarrow> nullish v"
  by (cases v; cases e) auto

lemma nullish_not_truthy: "nullish v \<Longrightarrow> \<not> truthy v"
  by (cases v) auto






section \<open>Labels and tooltips\<close>

lemma traverse_map:
  "(\<And>x. x \<in> set xs \<Longrightarrow> f x = Inr (g x)) \<Longrightarrow> traverse f xs = Inr (map g xs)"
  by (induction xs) simp_all

lemma find_first:
  "\<forall>g\<in>set pre. \<not> P g \<Longrightarrow> P l \<Longrightarrow> List.find P (pre @ l # post) = Some l"
  by (induction pre) simp_all

lemma primaryLabel_first:
  assumes "get node (str ''labels'') = Inr (JArr (pre @ l # post))"
    and "\<forall>g\<in>set pre. g = JStr (str ''Node'')" and "l \<noteq> JStr (str ''Node'')" and "truthy l"
  shows "primaryLabel node = Inr l"
proof -
  have "List.find (\<lambda>l. l \<noteq> JStr (str ''Node'')) (pre @ l # post) = Some l"
    using assms(2,3) by (intro find_first) auto
  then show ?thesis
    using assms(1,4) by (simp add: primaryLabel_def findLabel_def andThen_def orElse_def)
qed

lemma primaryLabel_generic:
  assumes "get node (str ''labels'') = Inr (JArr ls)"
    and "\<forall>g\<in>set ls. g = JStr (str ''Node'')"
  shows "primaryLabel node = Inr (JStr (str ''Node''))"
proof -
  have "List.find (\<lambda>l. l \<noteq> JStr (str ''Node'')) ls = None"
    using assms(2) by (simp add: find_None_iff)
  then show ?thesis
    using assms(1) by (simp add: primaryLabel_def findLabel_def andThen_def orElse_def)
qed

lemma generic_colour: "memberOr colorMap (str ''Node'') = Own (JStr (str ''#757575''))"
  by (simp add: memberOr_def member_def colorMap_def str_def)

lemma generic_shape: "memberOr shapeMap (str ''Node'') = Own (JStr (str ''dot''))"
  by (simp add: memberOr_def member_def shapeMap_def str_def)

lemma visNode_generic:
  assumes "primaryLabel node = Inr (JStr (str ''Node''))" and "visNode node = Inr v"
  shows "background v = JStr (str ''#757575'') \<and> shape v = JStr (str ''dot'')"
  using assms(2) unfolding visNode_def
  by (auto simp: assms(1) andThen_def generic_colour generic_shape split: sum.splits)

lemma visNode_by_label:
  assumes "primaryLabel node = Inr label" and "toStr label = Inr key" and "visNode node = Inr v"
  shows "memberOr colorMap key = Own (background v) \<and> memberOr shapeMap key = Own (shape v)"
  using assms(3) unfolding visNode_def
  by (auto simp: assms(1,2) andThen_def split: sum.splits slot.splits)

lemma tooltip_header:
  assumes "primaryLabel node = Inr label" and "toStr label = Inr key"
    and "tooltipLines node = Inr lines"
  shows "hd lines = str ''<b>'' @ key @ str ''</b>''"
  using assms(3) unfolding tooltipLines_def
  by (auto simp: assms(1,2) andThen_def split: sum.splits)

text \<open>
  C7. The labels of a node are its tags, non-empty strings (any truthy value will do).
  The primary label is the first label that is not \<open>Node\<close>: the label \<open>l\<close> of a list
  \<open>pre @ l # post\<close> in which every label of \<open>pre\<close> is \<open>Node\<close>. When every label is
  \<open>Node\<close>, and so when there is none, it is \<open>Node\<close>, and the node is drawn in the
  default colour \<open>#757575\<close> with the default shape \<open>dot\<close>. The primary label is what
  the display goes by: the colour and the shape of the node are the entries of
  \<open>colorMap\<close> and \<open>shapeMap\<close> under it (or under \<open>Node\<close>, when it has none), and it
  heads the tooltip.
\<close>

theorem primary_label:
  "get node (str ''labels'') = Inr (JArr ls) \<Longrightarrow>
     (\<forall>pre l post.
        ls = pre @ l # post \<and> (\<forall>g\<in>set pre. g = JStr (str ''Node''))
          \<and> l \<noteq> JStr (str ''Node'') \<and> truthy l
        \<longrightarrow> primaryLabel node = Inr l)
     \<and> ((\<forall>g\<in>set ls. g = JStr (str ''Node''))
        \<longrightarrow> primaryLabel node = Inr (JStr (str ''Node''))
            \<and> (\<forall>v. visNode node = Inr v
                 \<longrightarrow> background v = JStr (str ''#757575'') \<and> shape v = JStr (str ''dot'')))
     \<and> (\<forall>label key.
          primaryLabel node = Inr label \<and> toStr label = Inr key
          \<longrightarrow> (\<forall>v. visNode node = Inr v
                 \<longrightarrow> memberOr colorMap key = Own (background v)
                     \<and> memberOr shapeMap key = Own (shape v))
              \<and> (\<forall>lines. tooltipLines node = Inr lines
                   \<longrightarrow> hd lines = str ''<b>'' @ key @ str ''</b>''))"
  using primaryLabel_first primaryLabel_generic visNode_generic visNode_by_label tooltip_header
  by blast

theorem primary_label_witness:
  "get (JObj [(str ''labels'', JArr [JStr (str ''Node''), JStr (str ''Asset'')])]) (str ''labels'')
     = Inr (JArr [JStr (str ''Node''), JStr (str ''Asset'')])
   \<and> primaryLabel (JObj [(str ''labels'', JArr [JStr (str ''Node''), JStr (str ''Asset'')])])
     = Inr (JStr (str ''Asset''))
   \<and> get (JObj [(str ''labels'', JArr [JStr (str ''Node'')]), (str ''properties'', JObj [])])
       (str ''labels'')
     = Inr (JArr [JStr (str ''Node'')])
   \<and> primaryLabel (JObj [(str ''labels'', JArr [JStr (str ''Node'')]), (str ''properties'', JObj [])])
     = Inr (JStr (str ''Node''))
   \<and> (\<exists>v. visNode (JObj [(str ''labels'', JArr [JStr (str ''Node'')]), (str ''properties'', JObj [])])
            = Inr v
          \<and> background v = JStr (str ''#757575'') \<and> shape v = JStr (str ''dot''))"
proof -
  let ?a = "JObj [(str ''labels'', JArr [JStr (str ''Node''), JStr (str ''Asset'')])]"
  let ?b = "JObj [(str ''labels'', JArr [JStr (str ''Node'')]), (str ''properties'', JObj [])]"
  have a: "get ?a (str ''labels'') = Inr (JArr [JStr (str ''Node''), JStr (str ''Asset'')])"
    by simp
  have b: "get ?b (str ''labels'') = Inr (JArr [JStr (str ''Node'')])"
    by simp
  have asset: "[JStr (str ''Node''), JStr (str ''Asset'')] = [JStr (str ''Node'')] @ JStr (str ''Asset'') # []
               \<and> (\<forall>g\<in>set [JStr (str ''Node'')]. g = JStr (str ''Node''))
               \<and> JStr (str ''Asset'') \<noteq> JStr (str ''Node'') \<and> truthy (JStr (str ''Asset''))"
    by (simp add: str_def)
  have pa: "primaryLabel ?a = Inr (JStr (str ''Asset''))"
    using primary_label [OF a, THEN conjunct1, rule_format, OF asset] .
  have run: "\<exists>v. visNode ?b = Inr v"
    by (simp add: visNode_def primaryLabel_def findLabel_def andThen_def orElse_def
        formatNodeTooltip_def tooltipLines_def memberOr_def member_def colorMap_def
        shapeMap_def str_def)
  have pb: "primaryLabel ?b = Inr (JStr (str ''Node''))
            \<and> (\<forall>v. visNode ?b = Inr v
                 \<longrightarrow> background v = JStr (str ''#757575'') \<and> shape v = JStr (str ''dot''))"
    using primary_label [OF b, THEN conjunct2, THEN conjunct1] by simp
  show ?thesis using a b pa pb run by blast
qed

lemma tooltipLine_text:
  "toStr (snd kv) \<noteq> Inl TypeError \<Longrightarrow>
     tooltipLine kv = Inr (fst kv @ str '': '' @ textOf (snd kv))"
  by (cases "toStr (snd kv)") (auto simp: tooltipLine_def textOf_def andThen_def, metis thrown.exhaust)

text \<open>
  C4, as the code has it. The tooltip of a node is a header with the primary label and
  one line \<open>key: value\<close> for every property whose name is neither \<open>embedding\<close> nor
  \<open>description\<close>, in the order of the properties, the value printed as it is. The two
  names are left out whatever their values are: no length is consulted, and nothing is
  truncated.
\<close>

theorem tooltip_lines:
  assumes "primaryLabel node = Inr label" and "toStr label = Inr l"
    and "get node (str ''properties'') = Inr (JObj props)"
    and "\<forall>kv\<in>set props.
           fst kv \<noteq> str ''embedding'' \<and> fst kv \<noteq> str ''description''
           \<longrightarrow> toStr (snd kv) \<noteq> Inl TypeError"
  shows "tooltipLines node
           = Inr ((str ''<b>'' @ l @ str ''</b>'')
                  # map (\<lambda>kv. fst kv @ str '': '' @ textOf (snd kv))
                      (filter (\<lambda>kv. fst kv \<noteq> str ''embedding'' \<and> fst kv \<noteq> str ''description'')
                         props))
         \<and> formatNodeTooltip node
           = Inr (joinLines (str ''<br/>'')
                   ((str ''<b>'' @ l @ str ''</b>'')
                    # map (\<lambda>kv. fst kv @ str '': '' @ textOf (snd kv))
                        (filter (\<lambda>kv. fst kv \<noteq> str ''embedding'' \<and> fst kv \<noteq> str ''description'')
                           props)))"
proof -
  let ?kept = "filter tooltipKey props"
  have "traverse tooltipLine ?kept = Inr (map (\<lambda>kv. fst kv @ str '': '' @ textOf (snd kv)) ?kept)"
    using assms(4) by (intro traverse_map tooltipLine_text) (auto simp: tooltipKey_def)
  then have "tooltipLines node
           = Inr ((str ''<b>'' @ l @ str ''</b>'')
                  # map (\<lambda>kv. fst kv @ str '': '' @ textOf (snd kv)) ?kept)"
    using assms(1-3) by (simp add: tooltipLines_def andThen_def)
  moreover have "?kept = filter (\<lambda>kv. fst kv \<noteq> str ''embedding'' \<and> fst kv \<noteq> str ''description'') props"
    by (rule filter_cong) (simp_all add: tooltipKey_def)
  ultimately show ?thesis by (simp add: formatNodeTooltip_def andThen_def)
qed

theorem tooltip_lines_witness:
  "tooltipLines
     (JObj [(str ''labels'', JArr [JStr (str ''Asset'')]),
            (str ''properties'',
             JObj [(str ''name'', JStr (str ''DB-Server'')),
                   (str ''embedding'', JArr [JNum (str ''0.25''), JNum (str ''-1'')]),
                   (str ''cpu'', JNum (str ''8''))])])
   = Inr [str ''<b>Asset</b>'', str ''name: DB-Server'', str ''cpu: 8'']
   \<and> formatNodeTooltip
     (JObj [(str ''labels'', JArr [JStr (str ''Asset'')]),
            (str ''properties'',
             JObj [(str ''name'', JStr (str ''DB-Server'')),
                   (str ''embedding'', JArr [JNum (str ''0.25''), JNum (str ''-1'')]),
                   (str ''cpu'', JNum (str ''8''))])])
   = Inr (str ''<b>Asset</b><br/>name: DB-Server<br/>cpu: 8'')"
proof -
  let ?props = "[(str ''name'', JStr (str ''DB-Server'')),
                 (str ''embedding'', JArr [JNum (str ''0.25''), JNum (str ''-1'')]),
                 (str ''cpu'', JNum (str ''8''))]"
  let ?n = "JObj [(str ''labels'', JArr [JStr (str ''Asset'')]), (str ''properties'', JObj ?props)]"
  have a: "primaryLabel ?n = Inr (JStr (str ''Asset''))"
    by (simp add: primaryLabel_def findLabel_def andThen_def orElse_def str_def)
  have b: "toStr (JStr (str ''Asset'')) = Inr (str ''Asset'')"
    by simp
  have c: "get ?n (str ''properties'') = Inr (JObj ?props)"
    by (simp add: str_def)
  have d: "\<forall>kv\<in>set ?props.
             fst kv \<noteq> str ''embedding'' \<and> fst kv \<noteq> str ''description''
             \<longrightarrow> toStr (snd kv) \<noteq> Inl TypeError"
    by (simp add: str_def)
  show ?thesis
    using tooltip_lines [OF a b c d] by (simp add: textOf_def str_def)
qed

text \<open>
  C4, as the claim has it, fails: a description of two characters, within any
  truncation length, is not shown.
\<close>

theorem short_description_dropped:
  "tooltipLines
     (JObj [(str ''id'', JNum (str ''1'')),
            (str ''labels'', JArr [JStr (str ''Asset'')]),
            (str ''properties'',
             JObj [(str ''name'', JStr (str ''DB-Server'')),
                   (str ''description'', JStr (str ''db''))])])
   = Inr [str ''<b>Asset</b>'', str ''name: DB-Server'']"
  by (simp add: tooltipLines_def primaryLabel_def findLabel_def andThen_def orElse_def
      tooltipKey_def tooltipLine_def str_def)

section \<open>Sources and empty results\<close>

lemma digit_cases:
  "d < 10 \<Longrightarrow> d = 0 \<or> d = 1 \<or> d = 2 \<or> d = 3 \<or> d = 4 \<or> d = 5 \<or> d = 6 \<or> d = 7 \<or> d = 8
     \<or> d = (9::nat)"
  by arith

lemma digit_char:
  assumes "d < 10"
  shows "(of_nat (48 + d) :: 16 word) \<in> set (str ''0123456789'')"
  using digit_cases [OF assms] by (elim disjE) (simp_all add: str_def)

lemma digit_zero:
  assumes "d < 10"
  shows "(of_nat (48 + d) :: 16 word) = 48 \<longleftrightarrow> d = 0"
  using digit_cases [OF assms] by (elim disjE) simp_all

lemma decimal_not_Nil: "decimal n \<noteq> []"
  by (subst decimal.simps) simp

lemma decimal_digits: "set (decimal n) \<subseteq> set (str ''0123456789'')"
proof (induction n rule: decimal.induct)
  case (1 n)
  show ?case
  proof (cases "n < 10")
    case True
    then show ?thesis using digit_char [of n] by (subst decimal.simps) simp
  next
    case False
    have "n mod 10 < 10" by simp
    from digit_char [OF this] "1" [OF False] False show ?thesis
      by (subst decimal.simps) simp
  qed
qed

lemma decimal_zero: "decimal n = str ''0'' \<longleftrightarrow> n = 0"
proof (cases "n < 10")
  case True
  then show ?thesis using digit_zero [of n] by (subst decimal.simps) (simp add: str_def)
next
  case False
  have "length (decimal n) = length (decimal (n div 10)) + 1"
    using False by (subst decimal.simps) simp
  moreover have "length (decimal (n div 10)) \<noteq> 0" using decimal_not_Nil by simp
  ultimately have "length (decimal n) \<noteq> length (str ''0'')" by (simp add: str_def)
  then have "decimal n \<noteq> str ''0''" by metis
  then show ?thesis using False by simp
qed

lemma positive_decimal: "positive (decimal n) \<longleftrightarrow> 0 < n"
proof -
  have "(78::16 word) \<notin> set (str ''0123456789'')" by (simp add: str_def)
  then have "(78::16 word) \<notin> set (decimal n)" using decimal_digits by blast
  then have nan: "decimal n \<noteq> str ''NaN''" by (auto simp: str_def)
  have "hd (decimal n) \<in> set (str ''0123456789'')"
    using decimal_digits decimal_not_Nil hd_in_set by blast
  then have minus: "hd (decimal n) \<noteq> 0x2D" by (auto simp: str_def)
  show ?thesis using nan minus decimal_not_Nil decimal_zero by (simp add: positive_def)
qed

lemma get_total: "\<not> nullish v \<Longrightarrow> get v k = Inr (optGet v k)"
  by (cases v) (simp_all add: optGet_def)

lemma sourceItem_total:
  "\<not> nullish s \<Longrightarrow>
     sourceItem s = Inr [optGet s (str ''type''), JStr (str '': ''), optGet s (str ''name'')]"
  by (simp add: sourceItem_def get_total andThen_def)

lemma renderSources_array:
  assumes "xs \<noteq> []" and "\<forall>s\<in>set xs. \<not> nullish s"
  shows "renderSources num (JArr xs)
           = Inr (Some (map (\<lambda>s. [optGet s (str ''type''), JStr (str '': ''),
                                    optGet s (str ''name'')]) xs))"
proof -
  have "traverse sourceItem xs
          = Inr (map (\<lambda>s. [optGet s (str ''type''), JStr (str '': ''), optGet s (str ''name'')]) xs)"
    using assms(2) by (intro traverse_map sourceItem_total) simp
  then show ?thesis
    using assms(1) by (simp add: renderSources_def andThen_def positive_decimal mapArray_def)
qed

lemma renderSources_empty:
  "\<not> truthy s \<or> s = JArr [] \<Longrightarrow> renderSources num s = Inr None"
  by (auto simp: renderSources_def andThen_def positive_decimal)

lemma graphEffect_empty:
  assumes "\<not> truthy g \<or> (\<exists>ns. get g (str ''nodes'') = Inr ns \<and> (\<not> truthy ns \<or> ns = JArr []))"
  shows "graphEffect c g = Inr None"
proof (cases "truthy g \<and> c")
  case False
  then show ?thesis by (auto simp: graphEffect_def)
next
  case True
  then obtain ns where ns: "get g (str ''nodes'') = Inr ns" "\<not> truthy ns \<or> ns = JArr []"
    using assms by blast
  have "\<not> nullish g" using True nullish_not_truthy by blast
  then have rel: "get g (str ''relationships'') = Inr (optGet g (str ''relationships''))"
    by (rule get_total)
  show ?thesis
    using True ns rel by (auto simp: graphEffect_def andThen_def decimal_zero)
qed

text \<open>
  C2. When the payload of an answer carries a list of sources that is not empty, each
  entry an object, the message added for it shows the sources block with one item per
  source, in the order of the payload: the list of items is the \<open>map\<close> of the sources,
  item \<open>i\<close> made of \<open>type\<close> and \<open>name\<close> of source \<open>i\<close>. Nothing is reordered, filtered
  or ranked again, so the first item is the first source of the payload.
\<close>

theorem sources_in_order:
  assumes "get p (str ''answer'') = Inr a" and "get p (str ''sources'') = Inr (JArr xs)"
    and "xs \<noteq> []" and "\<forall>s\<in>set xs. \<not> nullish s"
  shows "\<exists>m. messages (handleSubmit_settled (Resolved p) st) = messages st @ [m]
           \<and> renderMessage num m
               = Inr (a, Some (map (\<lambda>s. [optGet s (str ''type''), JStr (str '': ''),
                                          optGet s (str ''name'')]) xs))"
proof -
  have "\<not> nullish p" using assms(1) by (cases p) auto
  then have "get p (str ''graph_data'') = Inr (optGet p (str ''graph_data''))"
    by (rule get_total)
  then have "messages (handleSubmit_settled (Resolved p) st)
               = messages st @ [assistantMessage a (JArr xs)]"
    using assms(1,2)
    by (simp add: handleSubmit_settled_def tryBlock_def handleNewAnswer_def andThen_def Let_def)
  moreover have "renderMessage num (assistantMessage a (JArr xs))
               = Inr (a, Some (map (\<lambda>s. [optGet s (str ''type''), JStr (str '': ''),
                                          optGet s (str ''name'')]) xs))"
    using renderSources_array [OF assms(3,4), of num]
    by (simp add: renderMessage_def assistantMessage_def andThen_def str_def)
  ultimately show ?thesis by blast
qed

theorem sources_in_order_witness:
  "\<exists>m. messages
          (handleSubmit_settled
             (Resolved
                (JObj [(str ''answer'', JStr (str ''In Data-Center-1.'')),
                       (str ''sources'',
                        JArr [JObj [(str ''name'', JStr (str ''DB-Server'')),
                                    (str ''type'', JStr (str ''Asset''))],
                              JObj [(str ''name'', JStr (str ''Data-Center-1'')),
                                    (str ''type'', JStr (str ''Location''))]])]))
             (ui mounted))
        = messages (ui mounted) @ [m]
      \<and> renderMessage id m
        = Inr (JStr (str ''In Data-Center-1.''),
               Some [[JStr (str ''Asset''), JStr (str '': ''), JStr (str ''DB-Server'')],
                     [JStr (str ''Location''), JStr (str '': ''), JStr (str ''Data-Center-1'')]])"
proof -
  let ?xs = "[JObj [(str ''name'', JStr (str ''DB-Server'')), (str ''type'', JStr (str ''Asset''))],
              JObj [(str ''name'', JStr (str ''Data-Center-1'')),
                    (str ''type'', JStr (str ''Location''))]]"
  let ?p = "JObj [(str ''answer'', JStr (str ''In Data-Center-1.'')), (str ''sources'', JArr ?xs)]"
  have a: "get ?p (str ''answer'') = Inr (JStr (str ''In Data-Center-1.''))"
    by simp
  have b: "get ?p (str ''sources'') = Inr (JArr ?xs)"
    by (simp add: str_def)
  have c: "?xs \<noteq> []"
    by simp
  have d: "\<forall>s\<in>set ?xs. \<not> nullish s"
    by simp
  have e: "map (\<lambda>s. [optGet s (str ''type''), JStr (str '': ''), optGet s (str ''name'')]) ?xs
             = [[JStr (str ''Asset''), JStr (str '': ''), JStr (str ''DB-Server'')],
                [JStr (str ''Location''), JStr (str '': ''), JStr (str ''Data-Center-1'')]]"
    by (simp add: optGet_def str_def)
  show ?thesis
    using sources_in_order [OF a b c d, of "ui mounted" id] unfolding e .
qed

lemma settled_resolved:
  assumes "get p (str ''answer'') = Inr a" and "get p (str ''sources'') = Inr s"
    and "get p (str ''graph_data'') = Inr g"
  shows "handleSubmit_settled (Resolved p) st
           = st\<lparr>messages := messages st @ [assistantMessage a s],
                graphData := (if truthy g then g else graphData st), isLoading := False\<rparr>"
  using assms
  by (simp add: handleSubmit_settled_def tryBlock_def handleNewAnswer_def andThen_def Let_def)

lemma renderMessage_assistant:
  "renderMessage num (assistantMessage a s) = andThen (renderSources num s) (\<lambda>b. Inr (a, b))"
  by (simp add: renderMessage_def assistantMessage_def andThen_def str_def)

lemma page_empty:
  assumes "get p (str ''answer'') = Inr a" and "get p (str ''sources'') = Inr s"
    and "\<not> truthy s \<or> s = JArr []"
    and "get p (str ''graph_data'') = Inr g" and "truthy g"
    and "\<exists>ns. get g (str ''nodes'') = Inr ns \<and> (\<not> truthy ns \<or> ns = JArr [])"
  shows "shown c num (handleSubmit_settled (Resolved p) st)
           = (map (renderMessage num) (messages st) @ [Inr (a, None)], Inr None,
              inputValue st, False)"
proof -
  have "renderSources num s = Inr None" using assms(3) by (rule renderSources_empty)
  then have "renderMessage num (assistantMessage a s) = Inr (a, None)"
    by (simp add: renderMessage_assistant andThen_def)
  moreover have "graphEffect c g = Inr None" using assms(6) by (intro graphEffect_empty) simp
  ultimately show ?thesis
    using assms(5) by (simp add: shown_def settled_resolved [OF assms(1,2,4)])
qed

text \<open>
  C5, as the code has it. Each rendering step is gated on its own list. The graph
  effect builds no network when the stored graph is falsy or its \<open>nodes\<close> are absent,
  \<open>null\<close> or the empty array. The sources block is not rendered when \<open>sources\<close> is
  absent, \<open>null\<close> or the empty array. Neither throws: an answer with no nodes and no
  sources adds its message without a block, draws nothing and lowers the loading flag.
  The sources block goes by the sources list alone: a list of sources that is not
  empty is rendered, whatever the nodes.
\<close>

theorem empty_renders_nothing:
  "(\<not> truthy g \<or> (\<exists>ns. get g (str ''nodes'') = Inr ns \<and> (\<not> truthy ns \<or> ns = JArr []))
      \<longrightarrow> graphEffect c g = Inr None)
   \<and> (\<not> truthy s \<or> s = JArr [] \<longrightarrow> renderSources num s = Inr None)
   \<and> (get p (str ''answer'') = Inr a \<and> get p (str ''sources'') = Inr s
        \<and> (\<not> truthy s \<or> s = JArr [])
        \<and> get p (str ''graph_data'') = Inr g \<and> truthy g
        \<and> (\<exists>ns. get g (str ''nodes'') = Inr ns \<and> (\<not> truthy ns \<or> ns = JArr []))
      \<longrightarrow> shown c num (handleSubmit_settled (Resolved p) st)
            = (map (renderMessage num) (messages st) @ [Inr (a, None)], Inr None,
               inputValue st, False))
   \<and> (xs \<noteq> [] \<and> (\<forall>x\<in>set xs. \<not> nullish x)
      \<longrightarrow> renderSources num (JArr xs)
            = Inr (Some (map (\<lambda>x. [optGet x (str ''type''), JStr (str '': ''),
                                     optGet x (str ''name'')]) xs)))"
  using graphEffect_empty [of g c] renderSources_empty [of s num]
    page_empty [of p a s g c num st] renderSources_array [of xs num]
  by blast

theorem empty_renders_nothing_witness:
  "graphEffect True (JObj [(str ''nodes'', JArr []), (str ''relationships'', JArr [])]) = Inr None
   \<and> graphEffect True (JObj [(str ''relationships'', JArr [])]) = Inr None
   \<and> graphEffect True JNull = Inr None
   \<and> renderSources id (JArr []) = Inr None
   \<and> renderSources id JUndefined = Inr None
   \<and> shown True id
       (handleSubmit_settled
          (Resolved (JObj [(str ''answer'', JStr (str ''No relevant data found.'')),
                           (str ''sources'', JArr []),
                           (str ''graph_data'',
                            JObj [(str ''nodes'', JArr []), (str ''relationships'', JArr [])])]))
          (ui mounted))
     = (map (renderMessage id) (messages (ui mounted))
          @ [Inr (JStr (str ''No relevant data found.''), None)],
        Inr None, inputValue (ui mounted), False)
   \<and> renderSources id (JArr [JObj [(str ''name'', JStr (str ''DB-Server'')),
                                   (str ''type'', JStr (str ''Asset''))]])
     = Inr (Some [[JStr (str ''Asset''), JStr (str '': ''), JStr (str ''DB-Server'')]])"
proof -
  let ?g = "JObj [(str ''nodes'', JArr []), (str ''relationships'', JArr [])]"
  let ?h = "JObj [(str ''relationships'', JArr [])]"
  let ?p = "JObj [(str ''answer'', JStr (str ''No relevant data found.'')),
                  (str ''sources'', JArr []), (str ''graph_data'', ?g)]"
  let ?x = "JObj [(str ''name'', JStr (str ''DB-Server'')), (str ''type'', JStr (str ''Asset''))]"
  have a: "get ?g (str ''nodes'') = Inr (JArr [])"
    by simp
  have b: "get ?h (str ''nodes'') = Inr JUndefined"
    by (simp add: str_def)
  have c: "\<not> truthy JNull" "\<not> truthy JUndefined" "truthy ?g"
    by simp_all
  have p: "get ?p (str ''answer'') = Inr (JStr (str ''No relevant data found.''))"
    "get ?p (str ''sources'') = Inr (JArr [])" "get ?p (str ''graph_data'') = Inr ?g"
    by (simp_all add: str_def)
  have x: "[?x] \<noteq> [] \<and> (\<forall>x\<in>set [?x]. \<not> nullish x)"
    by simp
  have m: "map (\<lambda>x. [optGet x (str ''type''), JStr (str '': ''), optGet x (str ''name'')]) [?x]
             = [[JStr (str ''Asset''), JStr (str '': ''), JStr (str ''DB-Server'')]]"
    by (simp add: optGet_def str_def)
  note one = empty_renders_nothing
    [of ?g True "JArr []" id ?p "JStr (str ''No relevant data found.'')" "ui mounted" "[?x]"]
  have g1: "graphEffect True ?g = Inr None" using one a by blast
  have s1: "renderSources id (JArr []) = Inr None" using one by blast
  have pg: "shown True id (handleSubmit_settled (Resolved ?p) (ui mounted))
     = (map (renderMessage id) (messages (ui mounted))
          @ [Inr (JStr (str ''No relevant data found.''), None)],
        Inr None, inputValue (ui mounted), False)"
    using one [THEN conjunct2, THEN conjunct2, THEN conjunct1] a c(3) p by blast
  have rs: "renderSources id (JArr [?x])
     = Inr (Some [[JStr (str ''Asset''), JStr (str '': ''), JStr (str ''DB-Server'')]])"
    using one [THEN conjunct2, THEN conjunct2, THEN conjunct2] x unfolding m by blast
  have g2: "graphEffect True ?h = Inr None"
    using empty_renders_nothing
      [of ?h True JUndefined id JNull JNull "ui mounted" "[]", THEN conjunct1] b c by blast
  have g3: "graphEffect True JNull = Inr None"
    using empty_renders_nothing
      [of JNull True JUndefined id JNull JNull "ui mounted" "[]", THEN conjunct1] c by blast
  have s2: "renderSources id JUndefined = Inr None"
    using empty_renders_nothing
      [of JNull True JUndefined id JNull JNull "ui mounted" "[]", THEN conjunct2, THEN conjunct1]
      c by blast
  show ?thesis using g1 g2 g3 s1 s2 pg rs by blast
qed

text \<open>
  C5, as the claim has it, fails: a payload whose node list is empty and whose sources
  list is not draws no network, and yet its sources block is rendered.
\<close>

theorem sources_shown_without_nodes:
  "shown True id
     (handleSubmit_settled
        (Resolved
           (JObj [(str ''answer'', JStr (str ''No graph for this one.'')),
                  (str ''sources'',
                   JArr [JObj [(str ''name'', JStr (str ''DB-Server'')),
                               (str ''type'', JStr (str ''Asset''))]]),
                  (str ''graph_data'',
                   JObj [(str ''nodes'', JArr []), (str ''relationships'', JArr [])])]))
        \<lparr>messages = [], inputValue = [], graphData = JNull, isLoading = True\<rparr>)
   = ([Inr (JStr (str ''No graph for this one.''),
            Some [[JStr (str ''Asset''), JStr (str '': ''), JStr (str ''DB-Server'')]])],
      Inr None, [], False)"
  by (simp add: shown_def handleSubmit_settled_def tryBlock_def handleNewAnswer_def
      assistantMessage_def renderMessage_def renderSources_def sourceItem_def mapArray_def
      graphEffect_def positive_def andThen_def decimal.simps str_def)

section \<open>Edges\<close>

lemma traverse_results:
  "traverse f xs = Inr ys \<Longrightarrow> (\<And>x y. x \<in> set xs \<Longrightarrow> f x = Inr y \<Longrightarrow> y = g x) \<Longrightarrow>
     ys = map g xs"
proof (induction xs arbitrary: ys)
  case Nil
  then show ?case by simp
next
  case (Cons x xs)
  from Cons.prems(1) obtain y zs where y: "f x = Inr y" and zs: "traverse f xs = Inr zs"
    and ys: "ys = y # zs"
    by (auto split: sum.splits)
  have "zs = map g xs" using Cons.IH [OF zs] Cons.prems(2) by simp
  moreover have "y = g x" using Cons.prems(2) [of x y] y by simp
  ultimately show ?case using ys by simp
qed

lemma traverse_total:
  "(\<And>x. x \<in> set xs \<Longrightarrow> f x \<noteq> Inl TypeError) \<Longrightarrow> \<exists>ys. traverse f xs = Inr ys"
proof (induction xs)
  case Nil
  then show ?case by simp
next
  case (Cons x xs)
  have "f x \<noteq> Inl TypeError" using Cons.prems by simp
  then obtain y where "f x = Inr y" by (cases "f x") (auto, metis thrown.exhaust)
  moreover obtain ys where "traverse f xs = Inr ys" using Cons by auto
  ultimately show ?case by simp
qed

lemma visEdge_result:
  assumes "visEdge (i, r) = Inr e"
  shows "e = \<lparr>edge_id = i, edge_from = optGet r (str ''source''),
              edge_to = optGet r (str ''target''), edge_label = optGet r (str ''type''),
              arrows = str ''to''\<rparr>"
proof -
  have "\<not> nullish r" using assms by (cases r) (auto simp: visEdge_def andThen_def)
  then show ?thesis using assms by (auto simp: visEdge_def andThen_def get_total)
qed

lemma visEdge_total: "\<not> nullish r \<Longrightarrow> visEdge (i, r) \<noteq> Inl TypeError"
  by (simp add: visEdge_def andThen_def get_total)

lemma zip_indices: "zip [0..<length xs] xs = map (\<lambda>i. (i, xs ! i)) [0..<length xs]"
  by (rule nth_equalityI) simp_all

lemma graphEffect_edges:
  assumes "graphEffect c g = Inr (Some net)" and "get g (str ''relationships'') = Inr (JArr rs)"
  shows "net_edges net
           = map (\<lambda>i. \<lparr>edge_id = i, edge_from = optGet (rs ! i) (str ''source''),
                        edge_to = optGet (rs ! i) (str ''target''),
                        edge_label = optGet (rs ! i) (str ''type''),
                        arrows = str ''to''\<rparr>) [0..<length rs]"
proof -
  from assms obtain es where es: "traverse visEdge (zip [0..<length rs] rs) = Inr es"
    and net: "net_edges net = es"
    by (auto simp: graphEffect_def andThen_def mapArrayIndexed_def split: if_splits sum.splits)
  have "es = map (\<lambda>ir. \<lparr>edge_id = fst ir, edge_from = optGet (snd ir) (str ''source''),
                        edge_to = optGet (snd ir) (str ''target''),
                        edge_label = optGet (snd ir) (str ''type''),
                        arrows = str ''to''\<rparr>) (zip [0..<length rs] rs)"
    using es by (rule traverse_results) (auto dest: visEdge_result)
  then show ?thesis using net by (simp add: zip_indices o_def)
qed

lemma graphEffect_total:
  assumes "c" and "get g (str ''nodes'') = Inr (JArr ns)" and "ns \<noteq> []"
    and "\<forall>n\<in>set ns. visNode n \<noteq> Inl TypeError"
    and "get g (str ''relationships'') = Inr (JArr rs)" and "\<forall>r\<in>set rs. \<not> nullish r"
  shows "\<exists>net. graphEffect c g = Inr (Some net)"
proof -
  have g: "truthy g" using assms(2) by (cases g) (auto split: if_splits)
  obtain vs where vs: "traverse visNode ns = Inr vs"
    using traverse_total [of ns visNode] assms(4) by blast
  have "\<And>x. x \<in> set (zip [0..<length rs] rs) \<Longrightarrow> visEdge x \<noteq> Inl TypeError"
    using assms(6) by (metis visEdge_total prod.collapse set_zip_rightD)
  then obtain es where es: "traverse visEdge (zip [0..<length rs] rs) = Inr es"
    using traverse_total [of "zip [0..<length rs] rs" visEdge] by blast
  show ?thesis
    using assms(1,2,3,5) g vs es
    by (simp add: graphEffect_def andThen_def mapArray_def mapArrayIndexed_def decimal_zero)
qed

text \<open>
  C8. The edges handed to vis-network are the relationships of the payload, one edge
  per relationship and in the same order: edge \<open>i\<close> has the index \<open>i\<close> as its id, goes
  from the \<open>source\<close> of relationship \<open>i\<close> to its \<open>target\<close>, with the arrow at the \<open>to\<close>
  end, and is labelled with its \<open>type\<close>. This holds whenever the effect constructs a
  network, and it does construct one when the container is there, the node list is not
  empty, every node is transformed without a throw and every relationship is an object.
\<close>

theorem edges_follow_relationships:
  "get g (str ''relationships'') = Inr (JArr rs) \<Longrightarrow>
     (\<forall>net. graphEffect c g = Inr (Some net) \<longrightarrow>
        net_edges net
          = map (\<lambda>i. \<lparr>edge_id = i, edge_from = optGet (rs ! i) (str ''source''),
                       edge_to = optGet (rs ! i) (str ''target''),
                       edge_label = optGet (rs ! i) (str ''type''),
                       arrows = str ''to''\<rparr>) [0..<length rs])
     \<and> (c \<and> (\<exists>ns. get g (str ''nodes'') = Inr (JArr ns) \<and> ns \<noteq> []
                 \<and> (\<forall>n\<in>set ns. visNode n \<noteq> Inl TypeError))
          \<and> (\<forall>r\<in>set rs. \<not> nullish r)
        \<longrightarrow> (\<exists>net. graphEffect c g = Inr (Some net)))"
  using graphEffect_edges graphEffect_total by blast

theorem edges_follow_relationships_witness:
  "\<exists>net. graphEffect True
            (JObj [(str ''nodes'',
                    JArr [JObj [(str ''id'', JNum (str ''1'')),
                                (str ''labels'', JArr [JStr (str ''Asset'')]),
                                (str ''properties'', JObj [(str ''name'', JStr (str ''DB-Server''))])],
                          JObj [(str ''id'', JNum (str ''2'')),
                                (str ''labels'', JArr [JStr (str ''Location'')]),
                                (str ''properties'',
                                 JObj [(str ''name'', JStr (str ''Data-Center-1''))])]]),
                   (str ''relationships'',
                    JArr [JObj [(str ''source'', JNum (str ''1'')),
                                (str ''target'', JNum (str ''2'')),
                                (str ''type'', JStr (str ''LOCATED_IN''))]])])
          = Inr (Some net)
        \<and> net_edges net
          = [\<lparr>edge_id = 0, edge_from = JNum (str ''1''), edge_to = JNum (str ''2''),
               edge_label = JStr (str ''LOCATED_IN''), arrows = str ''to''\<rparr>]"
proof -
  let ?n1 = "JObj [(str ''id'', JNum (str ''1'')), (str ''labels'', JArr [JStr (str ''Asset'')]),
                   (str ''properties'', JObj [(str ''name'', JStr (str ''DB-Server''))])]"
  let ?n2 = "JObj [(str ''id'', JNum (str ''2'')), (str ''labels'', JArr [JStr (str ''Location'')]),
                   (str ''properties'', JObj [(str ''name'', JStr (str ''Data-Center-1''))])]"
  let ?rs = "[JObj [(str ''source'', JNum (str ''1'')), (str ''target'', JNum (str ''2'')),
                    (str ''type'', JStr (str ''LOCATED_IN''))]]"
  let ?g = "JObj [(str ''nodes'', JArr [?n1, ?n2]), (str ''relationships'', JArr ?rs)]"
  have rel: "get ?g (str ''relationships'') = Inr (JArr ?rs)"
    by (simp add: str_def)
  have nodes: "get ?g (str ''nodes'') = Inr (JArr [?n1, ?n2])"
    by simp
  have v1: "visNode ?n1 \<noteq> Inl TypeError"
    by (simp add: visNode_def primaryLabel_def findLabel_def andThen_def orElse_def
        formatNodeTooltip_def tooltipLines_def tooltipKey_def tooltipLine_def
        memberOr_def member_def colorMap_def shapeMap_def str_def)
  have v2: "visNode ?n2 \<noteq> Inl TypeError"
    by (simp add: visNode_def primaryLabel_def findLabel_def andThen_def orElse_def
        formatNodeTooltip_def tooltipLines_def tooltipKey_def tooltipLine_def
        memberOr_def member_def colorMap_def shapeMap_def str_def)
  have ns: "\<exists>ns. get ?g (str ''nodes'') = Inr (JArr ns) \<and> ns \<noteq> []
                \<and> (\<forall>n\<in>set ns. visNode n \<noteq> Inl TypeError)"
    using nodes v1 v2 by (intro exI [of _ "[?n1, ?n2]"]) simp
  have ok: "\<forall>r\<in>set ?rs. \<not> nullish r"
    by simp
  have edges: "map (\<lambda>i. \<lparr>edge_id = i, edge_from = optGet (?rs ! i) (str ''source''),
                           edge_to = optGet (?rs ! i) (str ''target''),
                           edge_label = optGet (?rs ! i) (str ''type''),
                           arrows = str ''to''\<rparr>) [0..<length ?rs]
                 = [\<lparr>edge_id = 0, edge_from = JNum (str ''1''), edge_to = JNum (str ''2''),
                      edge_label = JStr (str ''LOCATED_IN''), arrows = str ''to''\<rparr>]"
    by (simp add: optGet_def str_def)
  note inst = edges_follow_relationships [OF rel, of True, unfolded edges]
  from inst [THEN conjunct2] ns ok obtain net where net: "graphEffect True ?g = Inr (Some net)"
    by blast
  with inst [THEN conjunct1] show ?thesis by blast
qed

section \<open>The field names read\<close>

lemma andThen_Inr: "andThen (Inr x) f = f x"
  by (simp add: andThen_def)

lemma lookup_keep:
  "map_of (filter (\<lambda>kv. fst kv \<in> set ks) kvs) k = (if k \<in> set ks then map_of kvs k else None)"
  by (induction kvs) auto

lemma lookup_under:
  "map_of (map (\<lambda>kv. if fst kv = k then (k, f (snd kv)) else kv) kvs) k'
     = (if k' = k then map_option f (map_of kvs k') else map_of kvs k')"
  by (induction kvs) auto

lemma get_keep: "k \<in> set ks \<Longrightarrow> get (keep ks v) k = get v k"
  by (cases v) (simp_all add: keep_def lookup_keep)

lemma traverse_cong:
  "(\<And>x. x \<in> set xs \<Longrightarrow> f (g x) = f x) \<Longrightarrow> traverse f (map g xs) = traverse f xs"
  by (induction xs) (simp_all cong: sum.case_cong)

lemma truthy_each: "truthy (each f v) = truthy v"
  by (cases v) (simp_all add: each_def)

lemma length_each: "get (each f v) (str ''length'') = get v (str ''length'')"
  by (cases v) (simp_all add: each_def)

lemma mapArray_each:
  "(\<And>x. h (f x) = h x) \<Longrightarrow> mapArray h (each f v) = mapArray h v"
  by (cases v) (simp_all add: each_def mapArray_def traverse_cong)

lemma traverse_zip_cong:
  "(\<And>i x. h (i, f x) = h (i, x)) \<Longrightarrow>
     traverse h (zip is (map f xs)) = traverse h (zip is xs)"
proof (induction xs arbitrary: "is")
  case Nil
  then show ?case by simp
next
  case (Cons x xs)
  then show ?case by (cases "is") (simp_all cong: sum.case_cong)
qed

lemma mapArrayIndexed_each:
  "(\<And>i x. h (i, f x) = h (i, x)) \<Longrightarrow> mapArrayIndexed h (each f v) = mapArrayIndexed h v"
  by (cases v) (simp_all add: each_def mapArrayIndexed_def traverse_zip_cong)

lemma sourceItem_keep:
  "sourceItem (keep [str ''name'', str ''type''] s) = sourceItem s"
  by (simp add: sourceItem_def get_keep)

lemma mapArray_sources:
  "mapArray sourceItem (each (keep [str ''name'', str ''type'']) s)
     = mapArray sourceItem s"
  by (rule mapArray_each) (rule sourceItem_keep)

lemma renderSources_readFields: "renderSources num (readSources s) = renderSources num s"
  by (simp add: renderSources_def readSources_def truthy_each length_each mapArray_sources
      cong: if_cong)

lemma visNode_keep:
  "visNode (keep [str ''id'', str ''labels'', str ''properties''] n) = visNode n"
  by (simp add: visNode_def primaryLabel_def formatNodeTooltip_def tooltipLines_def get_keep)

lemma visEdge_keep:
  "visEdge (i, keep [str ''source'', str ''target'', str ''type''] r) = visEdge (i, r)"
  by (simp add: visEdge_def get_keep)

lemma mapArray_nodes:
  "mapArray visNode (each (keep [str ''id'', str ''labels'', str ''properties'']) ns)
     = mapArray visNode ns"
  by (rule mapArray_each) (rule visNode_keep)

lemma mapArrayIndexed_relationships:
  "mapArrayIndexed visEdge (each (keep [str ''source'', str ''target'', str ''type'']) rs)
     = mapArrayIndexed visEdge rs"
  by (rule mapArrayIndexed_each) (rule visEdge_keep)

lemma get_under_other: "k' \<noteq> k \<Longrightarrow> get (under k f v) k' = get v k'"
  by (cases v) (simp_all add: under_def lookup_under)

lemma get_under_same:
  "f JUndefined = JUndefined \<Longrightarrow>
     get (under k f (JObj kvs)) k = map_sum id f (get (JObj kvs) k)"
  by (simp add: under_def lookup_under split: option.splits)

lemma truthy_readGraph: "truthy (readGraph g) = truthy g"
  by (cases g) (simp_all add: readGraph_def keep_def under_def)

lemma get_readGraph:
  assumes "g = JObj kvs"
  shows "get (readGraph g) (str ''nodes'')
           = map_sum id (each (keep [str ''id'', str ''labels'', str ''properties'']))
               (get g (str ''nodes''))"
    and "get (readGraph g) (str ''relationships'')
           = map_sum id (each (keep [str ''source'', str ''target'', str ''type'']))
               (get g (str ''relationships''))"
proof -
  let ?ks = "[str ''nodes'', str ''relationships'']"
  let ?N = "each (keep [str ''id'', str ''labels'', str ''properties''])"
  let ?R = "each (keep [str ''source'', str ''target'', str ''type''])"
  obtain k1 where K: "keep ?ks g = JObj k1"
    using assms by (simp add: keep_def)
  obtain k2 where U: "under (str ''relationships'') ?R (keep ?ks g) = JObj k2"
    using K by (simp add: under_def)
  have "get (readGraph g) (str ''nodes'') = map_sum id ?N (get (JObj k2) (str ''nodes''))"
    unfolding readGraph_def U by (rule get_under_same) (simp add: each_def)
  also have "get (JObj k2) (str ''nodes'') = get (keep ?ks g) (str ''nodes'')"
    unfolding U [symmetric] by (rule get_under_other) (simp add: str_def)
  also have "\<dots> = get g (str ''nodes'')"
    by (rule get_keep) simp
  finally show "get (readGraph g) (str ''nodes'') = map_sum id ?N (get g (str ''nodes''))" .
  have "get (readGraph g) (str ''relationships'')
          = get (under (str ''relationships'') ?R (keep ?ks g)) (str ''relationships'')"
    unfolding readGraph_def by (rule get_under_other) (simp add: str_def)
  also have "\<dots> = map_sum id ?R (get (keep ?ks g) (str ''relationships''))"
    unfolding K by (rule get_under_same) (simp add: each_def)
  also have "get (keep ?ks g) (str ''relationships'') = get g (str ''relationships'')"
    by (rule get_keep) simp
  finally show "get (readGraph g) (str ''relationships'')
                  = map_sum id ?R (get g (str ''relationships''))" .
qed

lemma graphEffect_readFields: "graphEffect c (readGraph g) = graphEffect c g"
proof (cases g)
  case (JObj kvs)
  obtain ns rs where ns: "get g (str ''nodes'') = Inr ns"
    and rs: "get g (str ''relationships'') = Inr rs"
    using JObj by simp
  show ?thesis
    using get_readGraph [OF JObj] ns rs
    by (simp add: graphEffect_def truthy_readGraph andThen_Inr truthy_each length_each
        mapArray_nodes mapArrayIndexed_relationships cong: if_cong)
qed (simp_all add: readGraph_def keep_def under_def)

lemma get_readFields:
  assumes "p = JObj kvs"
  shows "get (readFields p) (str ''answer'') = get p (str ''answer'')"
    and "get (readFields p) (str ''sources'') = map_sum id readSources (get p (str ''sources''))"
    and "get (readFields p) (str ''graph_data'')
           = map_sum id readGraph (get p (str ''graph_data''))"
proof -
  let ?ks = "[str ''answer'', str ''sources'', str ''graph_data'']"
  obtain k1 where K: "keep ?ks p = JObj k1"
    using assms by (simp add: keep_def)
  obtain k2 where U: "under (str ''graph_data'') readGraph (keep ?ks p) = JObj k2"
    using K by (simp add: under_def)
  have "get (readFields p) (str ''answer'')
          = get (under (str ''graph_data'') readGraph (keep ?ks p)) (str ''answer'')"
    unfolding readFields_def by (rule get_under_other) (simp add: str_def)
  also have "\<dots> = get (keep ?ks p) (str ''answer'')"
    by (rule get_under_other) (simp add: str_def)
  also have "\<dots> = get p (str ''answer'')"
    by (rule get_keep) simp
  finally show "get (readFields p) (str ''answer'') = get p (str ''answer'')" .
  have "get (readFields p) (str ''sources'')
          = map_sum id readSources (get (JObj k2) (str ''sources''))"
    unfolding readFields_def U by (rule get_under_same) (simp add: readSources_def each_def)
  also have "get (JObj k2) (str ''sources'') = get (keep ?ks p) (str ''sources'')"
    unfolding U [symmetric] by (rule get_under_other) (simp add: str_def)
  also have "\<dots> = get p (str ''sources'')"
    by (rule get_keep) simp
  finally show "get (readFields p) (str ''sources'')
                  = map_sum id readSources (get p (str ''sources''))" .
  have "get (readFields p) (str ''graph_data'')
          = get (under (str ''graph_data'') readGraph (keep ?ks p)) (str ''graph_data'')"
    unfolding readFields_def by (rule get_under_other) (simp add: str_def)
  also have "\<dots> = map_sum id readGraph (get (keep ?ks p) (str ''graph_data''))"
    unfolding K by (rule get_under_same) (simp add: readGraph_def keep_def under_def)
  also have "get (keep ?ks p) (str ''graph_data'') = get p (str ''graph_data'')"
    by (rule get_keep) simp
  finally show "get (readFields p) (str ''graph_data'')
                  = map_sum id readGraph (get p (str ''graph_data''))" .
qed

lemma renderMessage_readFields:
  "renderMessage num (assistantMessage a (readSources s))
     = renderMessage num (assistantMessage a s)"
  by (simp add: renderMessage_def assistantMessage_def andThen_def renderSources_readFields str_def)

lemma shown_readFields:
  "shown c num (handleSubmit_settled (Resolved (readFields p)) st)
     = shown c num (handleSubmit_settled (Resolved p) st)"
proof (cases p)
  case (JObj kvs)
  obtain a s g where a: "get p (str ''answer'') = Inr a"
    and s: "get p (str ''sources'') = Inr s"
    and g: "get p (str ''graph_data'') = Inr g"
    using JObj by simp
  show ?thesis
    using get_readFields [OF JObj] a s g
    by (simp add: shown_def handleSubmit_settled_def tryBlock_def handleNewAnswer_def
        andThen_def Let_def renderMessage_readFields truthy_readGraph graphEffect_readFields)
qed (simp_all add: readFields_def keep_def under_def)

lemma traverse_nth:
  "traverse f xs = Inr ys \<Longrightarrow>
     length ys = length xs \<and> (\<forall>i<length xs. f (xs ! i) = Inr (ys ! i))"
proof (induction xs arbitrary: ys)
  case Nil
  then show ?case by simp
next
  case (Cons x xs)
  from Cons.prems obtain y zs where y: "f x = Inr y" and zs: "traverse f xs = Inr zs"
    and ys: "ys = y # zs"
    by (auto split: sum.splits)
  from Cons.IH [OF zs] y ys show ?case
    by (auto simp: nth_Cons split: nat.splits)
qed

lemma visNode_fields:
  assumes "visNode n = Inr v"
  shows "node_id v = optGet n (str ''id'')
         \<and> node_label v
           = orElse (optGet (optGet n (str ''properties'')) (str ''name'')) (JStr (str ''Unknown''))"
proof -
  have n: "\<not> nullish n"
    using assms by (cases n) (auto simp: visNode_def primaryLabel_def andThen_def)
  have p: "\<not> nullish (optGet n (str ''properties''))"
    using assms n
    by (cases "optGet n (str ''properties'')")
       (auto simp: visNode_def andThen_def get_total split: sum.splits)
  show ?thesis
    using assms n p
    by (auto simp: visNode_def andThen_def get_total split: sum.splits prod.splits slot.splits)
qed

lemma visNode_colour:
  assumes "visNode n = Inr v"
    and "get n (str ''labels'') = Inr (JArr (pre @ JStr l # post))"
    and "\<forall>x\<in>set pre. x = JStr (str ''Node'')" and "l \<noteq> str ''Node''" and "l \<noteq> []"
  shows "memberOr colorMap l = Own (background v) \<and> memberOr shapeMap l = Own (shape v)"
proof -
  have "primaryLabel n = Inr (JStr l)"
    using assms(2-5) by (intro primaryLabel_first) simp_all
  then show ?thesis using assms(1) by (intro visNode_by_label [of n "JStr l"]) simp_all
qed

lemma graphEffect_nodes:
  assumes "graphEffect c g = Inr (Some net)" and "get g (str ''nodes'') = Inr (JArr ns)"
  shows "traverse visNode ns = Inr (net_nodes net)"
  using assms
  by (auto simp: graphEffect_def andThen_def mapArray_def split: if_splits sum.splits)

text \<open>
  C1, as the code has it. Of an answer the page reads \<open>answer\<close>, \<open>sources\<close> with \<open>name\<close>
  and \<open>type\<close> of each entry, and \<open>graph_data\<close> with \<open>nodes\<close> (\<open>id\<close>, \<open>labels\<close>,
  \<open>properties\<close> of each) and \<open>relationships\<close> (\<open>source\<close>, \<open>target\<close>, \<open>type\<close> of each),
  under these names and no others. It reads no others: the page shows the same after
  a payload as after its cut to these names, so \<open>question\<close>, the \<open>properties\<close> of a
  source and any renamed variant change nothing. It reads each of them: for a payload
  of that shape the new message has the value of \<open>answer\<close> as its content and one item
  per source made of its \<open>type\<close> and \<open>name\<close>, the stored graph is the value of
  \<open>graph_data\<close>, and the network drawn has one node per entry of \<open>nodes\<close>, with the
  \<open>id\<close> of the entry, the \<open>name\<close> among its \<open>properties\<close> as the caption, colour and
  shape by the first of its \<open>labels\<close> that is not \<open>Node\<close>, and one edge per entry of
  \<open>relationships\<close> from its \<open>source\<close> to its \<open>target\<close> labelled with its \<open>type\<close>. The
  request the page sends has the one field \<open>question\<close>.
\<close>

theorem fields_read:
  "shown c num (handleSubmit_settled (Resolved (readFields p)) st)
     = shown c num (handleSubmit_settled (Resolved p) st)
   \<and> map_sum id snd (handleSubmit (JStr q) st)
     = Inr (if trim q = [] then None
            else Some (Post (str ''/ask'') (JObj [(str ''question'', JStr q)])))
   \<and> (get p (str ''answer'') = Inr a
        \<and> get p (str ''sources'') = Inr (JArr xs) \<and> xs \<noteq> [] \<and> (\<forall>s\<in>set xs. \<not> nullish s)
        \<and> get p (str ''graph_data'') = Inr g \<and> c
        \<and> get g (str ''nodes'') = Inr (JArr ns) \<and> ns \<noteq> []
        \<and> (\<forall>n\<in>set ns. visNode n \<noteq> Inl TypeError)
        \<and> get g (str ''relationships'') = Inr (JArr rs) \<and> (\<forall>r\<in>set rs. \<not> nullish r)
      \<longrightarrow> (\<exists>m net.
             messages (handleSubmit_settled (Resolved p) st) = messages st @ [m]
           \<and> renderMessage num m
               = Inr (a, Some (map (\<lambda>s. [optGet s (str ''type''), JStr (str '': ''),
                                          optGet s (str ''name'')]) xs))
           \<and> graphData (handleSubmit_settled (Resolved p) st) = g
           \<and> graphEffect c g = Inr (Some net)
           \<and> length (net_nodes net) = length ns
           \<and> (\<forall>i<length ns.
                 node_id (net_nodes net ! i) = optGet (ns ! i) (str ''id'')
               \<and> node_label (net_nodes net ! i)
                   = orElse (optGet (optGet (ns ! i) (str ''properties'')) (str ''name''))
                       (JStr (str ''Unknown''))
               \<and> (\<forall>pre l post.
                     get (ns ! i) (str ''labels'') = Inr (JArr (pre @ JStr l # post))
                       \<and> (\<forall>x\<in>set pre. x = JStr (str ''Node'')) \<and> l \<noteq> str ''Node'' \<and> l \<noteq> []
                     \<longrightarrow> memberOr colorMap l = Own (background (net_nodes net ! i))
                         \<and> memberOr shapeMap l = Own (shape (net_nodes net ! i))))
           \<and> net_edges net
               = map (\<lambda>i. \<lparr>edge_id = i, edge_from = optGet (rs ! i) (str ''source''),
                            edge_to = optGet (rs ! i) (str ''target''),
                            edge_label = optGet (rs ! i) (str ''type''),
                            arrows = str ''to''\<rparr>) [0..<length rs]))"
proof (intro conjI impI)
  show "shown c num (handleSubmit_settled (Resolved (readFields p)) st)
          = shown c num (handleSubmit_settled (Resolved p) st)"
    by (rule shown_readFields)
  show "map_sum id snd (handleSubmit (JStr q) st)
          = Inr (if trim q = [] then None
                 else Some (Post (str ''/ask'') (JObj [(str ''question'', JStr q)])))"
    by (simp add: handleSubmit_def)
next
  assume h: "get p (str ''answer'') = Inr a
        \<and> get p (str ''sources'') = Inr (JArr xs) \<and> xs \<noteq> [] \<and> (\<forall>s\<in>set xs. \<not> nullish s)
        \<and> get p (str ''graph_data'') = Inr g \<and> c
        \<and> get g (str ''nodes'') = Inr (JArr ns) \<and> ns \<noteq> []
        \<and> (\<forall>n\<in>set ns. visNode n \<noteq> Inl TypeError)
        \<and> get g (str ''relationships'') = Inr (JArr rs) \<and> (\<forall>r\<in>set rs. \<not> nullish r)"
  show "\<exists>m net.
             messages (handleSubmit_settled (Resolved p) st) = messages st @ [m]
           \<and> renderMessage num m
               = Inr (a, Some (map (\<lambda>s. [optGet s (str ''type''), JStr (str '': ''),
                                          optGet s (str ''name'')]) xs))
           \<and> graphData (handleSubmit_settled (Resolved p) st) = g
           \<and> graphEffect c g = Inr (Some net)
           \<and> length (net_nodes net) = length ns
           \<and> (\<forall>i<length ns.
                 node_id (net_nodes net ! i) = optGet (ns ! i) (str ''id'')
               \<and> node_label (net_nodes net ! i)
                   = orElse (optGet (optGet (ns ! i) (str ''properties'')) (str ''name''))
                       (JStr (str ''Unknown''))
               \<and> (\<forall>pre l post.
                     get (ns ! i) (str ''labels'') = Inr (JArr (pre @ JStr l # post))
                       \<and> (\<forall>x\<in>set pre. x = JStr (str ''Node'')) \<and> l \<noteq> str ''Node'' \<and> l \<noteq> []
                     \<longrightarrow> memberOr colorMap l = Own (background (net_nodes net ! i))
                         \<and> memberOr shapeMap l = Own (shape (net_nodes net ! i))))
           \<and> net_edges net
               = map (\<lambda>i. \<lparr>edge_id = i, edge_from = optGet (rs ! i) (str ''source''),
                            edge_to = optGet (rs ! i) (str ''target''),
                            edge_label = optGet (rs ! i) (str ''type''),
                            arrows = str ''to''\<rparr>) [0..<length rs]"
  proof -
    from h have a: "get p (str ''answer'') = Inr a"
      and s: "get p (str ''sources'') = Inr (JArr xs)" and xs: "xs \<noteq> []"
      and ok: "\<forall>s\<in>set xs. \<not> nullish s"
      and g: "get p (str ''graph_data'') = Inr g" and c: "c"
      and n: "get g (str ''nodes'') = Inr (JArr ns)" and ns: "ns \<noteq> []"
      and vs: "\<forall>n\<in>set ns. visNode n \<noteq> Inl TypeError"
      and r: "get g (str ''relationships'') = Inr (JArr rs)" and rs: "\<forall>r\<in>set rs. \<not> nullish r"
      by simp_all
    have tg: "truthy g" using n by (cases g) (auto split: if_splits)
    have st': "handleSubmit_settled (Resolved p) st
             = st\<lparr>messages := messages st @ [assistantMessage a (JArr xs)],
                  graphData := g, isLoading := False\<rparr>"
      using a s g tg
      by (simp add: handleSubmit_settled_def tryBlock_def handleNewAnswer_def andThen_def Let_def)
    have m: "renderMessage num (assistantMessage a (JArr xs))
               = Inr (a, Some (map (\<lambda>s. [optGet s (str ''type''), JStr (str '': ''),
                                          optGet s (str ''name'')]) xs))"
      using renderSources_array [OF xs ok, of num]
      by (simp add: renderMessage_def assistantMessage_def andThen_def str_def)
    obtain vis where vis: "traverse visNode ns = Inr vis"
      using traverse_total [of ns visNode] vs by blast
    have "\<And>x. x \<in> set (zip [0..<length rs] rs) \<Longrightarrow> visEdge x \<noteq> Inl TypeError"
      using rs by (metis visEdge_total prod.collapse set_zip_rightD)
    then obtain es where es: "traverse visEdge (zip [0..<length rs] rs) = Inr es"
      using traverse_total [of "zip [0..<length rs] rs" visEdge] by blast
    define net where "net = \<lparr>net_nodes = vis, net_edges = es\<rparr>"
    have net: "graphEffect c g = Inr (Some net)"
      using c n ns r tg vis es
      by (simp add: net_def graphEffect_def andThen_def mapArray_def mapArrayIndexed_def
          decimal_zero)
    have tr: "traverse visNode ns = Inr (net_nodes net)"
      using net n by (rule graphEffect_nodes)
    have len: "length (net_nodes net) = length ns"
      and each: "\<forall>i<length ns. visNode (ns ! i) = Inr (net_nodes net ! i)"
      using traverse_nth [OF tr] by simp_all
    have nodes: "\<forall>i<length ns.
                 node_id (net_nodes net ! i) = optGet (ns ! i) (str ''id'')
               \<and> node_label (net_nodes net ! i)
                   = orElse (optGet (optGet (ns ! i) (str ''properties'')) (str ''name''))
                       (JStr (str ''Unknown''))
               \<and> (\<forall>pre l post.
                     get (ns ! i) (str ''labels'') = Inr (JArr (pre @ JStr l # post))
                       \<and> (\<forall>x\<in>set pre. x = JStr (str ''Node'')) \<and> l \<noteq> str ''Node'' \<and> l \<noteq> []
                     \<longrightarrow> memberOr colorMap l = Own (background (net_nodes net ! i))
                         \<and> memberOr shapeMap l = Own (shape (net_nodes net ! i)))"
    proof (intro allI impI)
      fix i
      assume "i < length ns"
      then have v: "visNode (ns ! i) = Inr (net_nodes net ! i)" using each by simp
      show "node_id (net_nodes net ! i) = optGet (ns ! i) (str ''id'')
               \<and> node_label (net_nodes net ! i)
                   = orElse (optGet (optGet (ns ! i) (str ''properties'')) (str ''name''))
                       (JStr (str ''Unknown''))
               \<and> (\<forall>pre l post.
                     get (ns ! i) (str ''labels'') = Inr (JArr (pre @ JStr l # post))
                       \<and> (\<forall>x\<in>set pre. x = JStr (str ''Node'')) \<and> l \<noteq> str ''Node'' \<and> l \<noteq> []
                     \<longrightarrow> memberOr colorMap l = Own (background (net_nodes net ! i))
                         \<and> memberOr shapeMap l = Own (shape (net_nodes net ! i)))"
        using visNode_fields [OF v] visNode_colour [OF v] by blast
    qed
    have edges: "net_edges net
               = map (\<lambda>i. \<lparr>edge_id = i, edge_from = optGet (rs ! i) (str ''source''),
                            edge_to = optGet (rs ! i) (str ''target''),
                            edge_label = optGet (rs ! i) (str ''type''),
                            arrows = str ''to''\<rparr>) [0..<length rs]"
      using net r by (rule graphEffect_edges)
    have "messages (handleSubmit_settled (Resolved p) st)
            = messages st @ [assistantMessage a (JArr xs)]"
      and "graphData (handleSubmit_settled (Resolved p) st) = g"
      using st' by simp_all
    with m net len nodes edges show ?thesis by blast
  qed
qed

theorem fields_read_witness:
  "shown True id
     (handleSubmit_settled
        (Resolved
           (JObj [(str ''question'', JStr (str ''Where is the DB-Server located?'')),
                  (str ''answer'', JStr (str ''In Data-Center-1.'')),
                  (str ''graphData'', JObj [(str ''nodes'', JArr [JNull])]),
                  (str ''sources'',
                   JArr [JObj [(str ''name'', JStr (str ''DB-Server'')),
                               (str ''type'', JStr (str ''Asset'')),
                               (str ''properties'', JObj [(str ''ip'', JStr (str ''10.0.0.5''))])]]),
                  (str ''graph_data'',
                   JObj [(str ''nodes'',
                          JArr [JObj [(str ''id'', JNum (str ''1'')),
                                      (str ''label'', JStr (str ''Service'')),
                                      (str ''labels'', JArr [JStr (str ''Asset'')]),
                                      (str ''properties'',
                                       JObj [(str ''name'', JStr (str ''DB-Server''))])]]),
                         (str ''edges'', JArr [JNull]),
                         (str ''relationships'',
                          JArr [JObj [(str ''from'', JNum (str ''7'')),
                                      (str ''source'', JNum (str ''1'')),
                                      (str ''target'', JNum (str ''1'')),
                                      (str ''type'', JStr (str ''DEPENDS_ON''))]])])]))
        (ui mounted))
   = shown True id
     (handleSubmit_settled
        (Resolved
           (JObj [(str ''answer'', JStr (str ''In Data-Center-1.'')),
                  (str ''sources'',
                   JArr [JObj [(str ''name'', JStr (str ''DB-Server'')),
                               (str ''type'', JStr (str ''Asset''))]]),
                  (str ''graph_data'',
                   JObj [(str ''nodes'',
                          JArr [JObj [(str ''id'', JNum (str ''1'')),
                                      (str ''labels'', JArr [JStr (str ''Asset'')]),
                                      (str ''properties'',
                                       JObj [(str ''name'', JStr (str ''DB-Server''))])]]),
                         (str ''relationships'',
                          JArr [JObj [(str ''source'', JNum (str ''1'')),
                                      (str ''target'', JNum (str ''1'')),
                                      (str ''type'', JStr (str ''DEPENDS_ON''))]])])]))
        (ui mounted))
   \<and> (\<exists>m net.
        messages
          (handleSubmit_settled
             (Resolved
                (JObj [(str ''answer'', JStr (str ''In Data-Center-1.'')),
                       (str ''sources'',
                        JArr [JObj [(str ''name'', JStr (str ''DB-Server'')),
                                    (str ''type'', JStr (str ''Asset''))]]),
                       (str ''graph_data'',
                        JObj [(str ''nodes'',
                               JArr [JObj [(str ''id'', JNum (str ''1'')),
                                           (str ''labels'', JArr [JStr (str ''Asset'')]),
                                           (str ''properties'',
                                            JObj [(str ''name'', JStr (str ''DB-Server''))])]]),
                              (str ''relationships'',
                               JArr [JObj [(str ''source'', JNum (str ''1'')),
                                           (str ''target'', JNum (str ''1'')),
                                           (str ''type'', JStr (str ''DEPENDS_ON''))]])])]))
             (ui mounted))
          = messages (ui mounted) @ [m]
        \<and> renderMessage id m
          = Inr (JStr (str ''In Data-Center-1.''),
                 Some [[JStr (str ''Asset''), JStr (str '': ''), JStr (str ''DB-Server'')]])
        \<and> graphEffect True
            (JObj [(str ''nodes'',
                    JArr [JObj [(str ''id'', JNum (str ''1'')),
                                (str ''labels'', JArr [JStr (str ''Asset'')]),
                                (str ''properties'',
                                 JObj [(str ''name'', JStr (str ''DB-Server''))])]]),
                   (str ''relationships'',
                    JArr [JObj [(str ''source'', JNum (str ''1'')),
                                (str ''target'', JNum (str ''1'')),
                                (str ''type'', JStr (str ''DEPENDS_ON''))]])])
          = Inr (Some net)
        \<and> length (net_nodes net) = 1
        \<and> node_id (net_nodes net ! 0) = JNum (str ''1'')
        \<and> node_label (net_nodes net ! 0) = JStr (str ''DB-Server'')
        \<and> background (net_nodes net ! 0) = JStr (str ''#4CAF50'')
        \<and> shape (net_nodes net ! 0) = JStr (str ''box'')
        \<and> net_edges net
          = [\<lparr>edge_id = 0, edge_from = JNum (str ''1''), edge_to = JNum (str ''1''),
               edge_label = JStr (str ''DEPENDS_ON''), arrows = str ''to''\<rparr>])"
proof -
  let ?src = "JObj [(str ''name'', JStr (str ''DB-Server'')), (str ''type'', JStr (str ''Asset''))]"
  let ?n = "JObj [(str ''id'', JNum (str ''1'')), (str ''labels'', JArr [JStr (str ''Asset'')]),
                  (str ''properties'', JObj [(str ''name'', JStr (str ''DB-Server''))])]"
  let ?r = "JObj [(str ''source'', JNum (str ''1'')), (str ''target'', JNum (str ''1'')),
                  (str ''type'', JStr (str ''DEPENDS_ON''))]"
  let ?g = "JObj [(str ''nodes'', JArr [?n]), (str ''relationships'', JArr [?r])]"
  let ?cut = "JObj [(str ''answer'', JStr (str ''In Data-Center-1.'')),
                    (str ''sources'', JArr [?src]), (str ''graph_data'', ?g)]"
  let ?p = "JObj [(str ''question'', JStr (str ''Where is the DB-Server located?'')),
                  (str ''answer'', JStr (str ''In Data-Center-1.'')),
                  (str ''graphData'', JObj [(str ''nodes'', JArr [JNull])]),
                  (str ''sources'',
                   JArr [JObj [(str ''name'', JStr (str ''DB-Server'')),
                               (str ''type'', JStr (str ''Asset'')),
                               (str ''properties'', JObj [(str ''ip'', JStr (str ''10.0.0.5''))])]]),
                  (str ''graph_data'',
                   JObj [(str ''nodes'',
                          JArr [JObj [(str ''id'', JNum (str ''1'')),
                                      (str ''label'', JStr (str ''Service'')),
                                      (str ''labels'', JArr [JStr (str ''Asset'')]),
                                      (str ''properties'',
                                       JObj [(str ''name'', JStr (str ''DB-Server''))])]]),
                         (str ''edges'', JArr [JNull]),
                         (str ''relationships'',
                          JArr [JObj [(str ''from'', JNum (str ''7'')),
                                      (str ''source'', JNum (str ''1'')),
                                      (str ''target'', JNum (str ''1'')),
                                      (str ''type'', JStr (str ''DEPENDS_ON''))]])])]"
  have e: "readFields ?p = ?cut"
    by (simp add: readFields_def readSources_def readGraph_def keep_def under_def each_def str_def)
  have first: "shown True id (handleSubmit_settled (Resolved ?p) (ui mounted))
                 = shown True id (handleSubmit_settled (Resolved ?cut) (ui mounted))"
    using fields_read [of True id ?p "ui mounted", THEN conjunct1] unfolding e by (rule sym)
  have v: "visNode ?n \<noteq> Inl TypeError"
    by (simp add: visNode_def primaryLabel_def findLabel_def andThen_def orElse_def
        formatNodeTooltip_def tooltipLines_def tooltipKey_def tooltipLine_def
        memberOr_def member_def colorMap_def shapeMap_def str_def)
  have h: "get ?cut (str ''answer'') = Inr (JStr (str ''In Data-Center-1.''))
        \<and> get ?cut (str ''sources'') = Inr (JArr [?src]) \<and> [?src] \<noteq> []
        \<and> (\<forall>s\<in>set [?src]. \<not> nullish s)
        \<and> get ?cut (str ''graph_data'') = Inr ?g \<and> True
        \<and> get ?g (str ''nodes'') = Inr (JArr [?n]) \<and> [?n] \<noteq> []
        \<and> (\<forall>n\<in>set [?n]. visNode n \<noteq> Inl TypeError)
        \<and> get ?g (str ''relationships'') = Inr (JArr [?r]) \<and> (\<forall>r\<in>set [?r]. \<not> nullish r)"
    using v by (simp add: str_def)
  have lab: "get ([?n] ! 0) (str ''labels'') = Inr (JArr ([] @ JStr (str ''Asset'') # []))
               \<and> (\<forall>x\<in>set []. x = JStr (str ''Node'')) \<and> str ''Asset'' \<noteq> str ''Node''
               \<and> str ''Asset'' \<noteq> []"
    by (simp add: str_def)
  have col: "memberOr colorMap (str ''Asset'') = Own (JStr (str ''#4CAF50''))"
    "memberOr shapeMap (str ''Asset'') = Own (JStr (str ''box''))"
    by (simp_all add: memberOr_def member_def colorMap_def shapeMap_def str_def)
  from fields_read
    [of True id ?cut "ui mounted" "[]" "JStr (str ''In Data-Center-1.'')" "[?src]" ?g "[?n]" "[?r]",
     THEN conjunct2, THEN conjunct2, rule_format, OF h]
  obtain m net where
    ms: "messages (handleSubmit_settled (Resolved ?cut) (ui mounted)) = messages (ui mounted) @ [m]"
    and rm: "renderMessage id m
               = Inr (JStr (str ''In Data-Center-1.''),
                      Some (map (\<lambda>s. [optGet s (str ''type''), JStr (str '': ''),
                                       optGet s (str ''name'')]) [?src]))"
    and ge: "graphEffect True ?g = Inr (Some net)"
    and len: "length (net_nodes net) = length [?n]"
    and nd: "\<forall>i<length [?n].
               node_id (net_nodes net ! i) = optGet ([?n] ! i) (str ''id'')
             \<and> node_label (net_nodes net ! i)
                 = orElse (optGet (optGet ([?n] ! i) (str ''properties'')) (str ''name''))
                     (JStr (str ''Unknown''))
             \<and> (\<forall>pre l post.
                   get ([?n] ! i) (str ''labels'') = Inr (JArr (pre @ JStr l # post))
                     \<and> (\<forall>x\<in>set pre. x = JStr (str ''Node'')) \<and> l \<noteq> str ''Node'' \<and> l \<noteq> []
                   \<longrightarrow> memberOr colorMap l = Own (background (net_nodes net ! i))
                       \<and> memberOr shapeMap l = Own (shape (net_nodes net ! i)))"
    and ed: "net_edges net
               = map (\<lambda>i. \<lparr>edge_id = i, edge_from = optGet ([?r] ! i) (str ''source''),
                            edge_to = optGet ([?r] ! i) (str ''target''),
                            edge_label = optGet ([?r] ! i) (str ''type''),
                            arrows = str ''to''\<rparr>) [0..<length [?r]]"
    by blast
  have rm': "renderMessage id m
               = Inr (JStr (str ''In Data-Center-1.''),
                      Some [[JStr (str ''Asset''), JStr (str '': ''), JStr (str ''DB-Server'')]])"
    using rm by (simp add: optGet_def str_def)
  have len': "length (net_nodes net) = 1" using len by simp
  have zero: "0 < length [?n]" by simp
  note nd0 = nd [rule_format, of 0, OF zero]
  have id0: "node_id (net_nodes net ! 0) = JNum (str ''1'')"
    using nd0 by (simp add: optGet_def str_def)
  have nm0: "node_label (net_nodes net ! 0) = JStr (str ''DB-Server'')"
    using nd0 by (simp add: optGet_def orElse_def str_def)
  have "memberOr colorMap (str ''Asset'') = Own (background (net_nodes net ! 0))
        \<and> memberOr shapeMap (str ''Asset'') = Own (shape (net_nodes net ! 0))"
    using nd0 [THEN conjunct2, THEN conjunct2, rule_format, OF lab] .
  then have bg: "background (net_nodes net ! 0) = JStr (str ''#4CAF50'')"
    and sh: "shape (net_nodes net ! 0) = JStr (str ''box'')"
    using col by simp_all
  have ed': "net_edges net
          = [\<lparr>edge_id = 0, edge_from = JNum (str ''1''), edge_to = JNum (str ''1''),
               edge_label = JStr (str ''DEPENDS_ON''), arrows = str ''to''\<rparr>]"
    using ed by (simp add: optGet_def str_def)
  from ms rm' ge len' id0 nm0 bg sh ed'
  have "\<exists>m net.
        messages (handleSubmit_settled (Resolved ?cut) (ui mounted)) = messages (ui mounted) @ [m]
        \<and> renderMessage id m
          = Inr (JStr (str ''In Data-Center-1.''),
                 Some [[JStr (str ''Asset''), JStr (str '': ''), JStr (str ''DB-Server'')]])
        \<and> graphEffect True ?g = Inr (Some net)
        \<and> length (net_nodes net) = 1
        \<and> node_id (net_nodes net ! 0) = JNum (str ''1'')
        \<and> node_label (net_nodes net ! 0) = JStr (str ''DB-Server'')
        \<and> background (net_nodes net ! 0) = JStr (str ''#4CAF50'')
        \<and> shape (net_nodes net ! 0) = JStr (str ''box'')
        \<and> net_edges net
          = [\<lparr>edge_id = 0, edge_from = JNum (str ''1''), edge_to = JNum (str ''1''),
               edge_label = JStr (str ''DEPENDS_ON''), arrows = str ''to''\<rparr>]"
    by blast
  with first show ?thesis by (rule conjI)
qed

text \<open>
  C1, as the claim has it, fails: \<open>question\<close> and the \<open>properties\<close> of a source are
  names of the envelope that the page does not read. Two payloads that differ in the
  question, and in one of which the properties of the source are under another name
  with other values, show the same.
\<close>

theorem question_and_source_properties_unread:
  "shown True id
     (handleSubmit_settled
        (Resolved
           (JObj [(str ''question'', JStr (str ''Where is the DB-Server located?'')),
                  (str ''answer'', JStr (str ''In Data-Center-1.'')),
                  (str ''sources'',
                   JArr [JObj [(str ''name'', JStr (str ''DB-Server'')),
                               (str ''type'', JStr (str ''Asset'')),
                               (str ''properties'', JObj [(str ''ip'', JStr (str ''10.0.0.5''))])]]),
                  (str ''graph_data'',
                   JObj [(str ''nodes'',
                          JArr [JObj [(str ''id'', JNum (str ''1'')),
                                      (str ''labels'', JArr [JStr (str ''Asset'')]),
                                      (str ''properties'',
                                       JObj [(str ''name'', JStr (str ''DB-Server''))])]]),
                         (str ''relationships'', JArr [])])]))
        (ui mounted))
   = shown True id
     (handleSubmit_settled
        (Resolved
           (JObj [(str ''question'', JStr (str ''Who owns Payroll Service?'')),
                  (str ''answer'', JStr (str ''In Data-Center-1.'')),
                  (str ''sources'',
                   JArr [JObj [(str ''name'', JStr (str ''DB-Server'')),
                               (str ''type'', JStr (str ''Asset'')),
                               (str ''props'', JObj [(str ''ip'', JStr (str ''192.168.1.9''))])]]),
                  (str ''graph_data'',
                   JObj [(str ''nodes'',
                          JArr [JObj [(str ''id'', JNum (str ''1'')),
                                      (str ''labels'', JArr [JStr (str ''Asset'')]),
                                      (str ''properties'',
                                       JObj [(str ''name'', JStr (str ''DB-Server''))])]]),
                         (str ''relationships'', JArr [])])]))
        (ui mounted))"
proof -
  let ?p1 = "JObj [(str ''question'', JStr (str ''Where is the DB-Server located?'')),
                  (str ''answer'', JStr (str ''In Data-Center-1.'')),
                  (str ''sources'',
                   JArr [JObj [(str ''name'', JStr (str ''DB-Server'')),
                               (str ''type'', JStr (str ''Asset'')),
                               (str ''properties'', JObj [(str ''ip'', JStr (str ''10.0.0.5''))])]]),
                  (str ''graph_data'',
                   JObj [(str ''nodes'',
                          JArr [JObj [(str ''id'', JNum (str ''1'')),
                                      (str ''labels'', JArr [JStr (str ''Asset'')]),
                                      (str ''properties'',
                                       JObj [(str ''name'', JStr (str ''DB-Server''))])]]),
                         (str ''relationships'', JArr [])])]"
  let ?p2 = "JObj [(str ''question'', JStr (str ''Who owns Payroll Service?'')),
                  (str ''answer'', JStr (str ''In Data-Center-1.'')),
                  (str ''sources'',
                   JArr [JObj [(str ''name'', JStr (str ''DB-Server'')),
                               (str ''type'', JStr (str ''Asset'')),
                               (str ''props'', JObj [(str ''ip'', JStr (str ''192.168.1.9''))])]]),
                  (str ''graph_data'',
                   JObj [(str ''nodes'',
                          JArr [JObj [(str ''id'', JNum (str ''1'')),
                                      (str ''labels'', JArr [JStr (str ''Asset'')]),
                                      (str ''properties'',
                                       JObj [(str ''name'', JStr (str ''DB-Server''))])]]),
                         (str ''relationships'', JArr [])])]"
  have "readFields ?p1 = readFields ?p2"
    by (simp add: readFields_def readSources_def readGraph_def keep_def under_def each_def str_def)
  then show ?thesis
    using shown_readFields [of True id ?p1 "ui mounted"]
      shown_readFields [of True id ?p2 "ui mounted"]
    by simp
qed

end
